theory Spec2Isabelle
  imports Complex_Main "HOL-Library.AList"
begin


section \<open>Common Python notions\<close>

text \<open>
  Python floats are idealised as real numbers: every arithmetic operation is exact.
  A raised exception is a value \<open>Inl e\<close> of the result type \<open>pyerror + 'a\<close>.
  A dict is an association list in insertion order; \<open>d[k]\<close> is \<open>getitem d k\<close>.
\<close>

datatype pyerror = KeyError | ZeroDivisionError | TypeError | AttributeError
  | IndexError | UnboundLocalError | ComplexResult

definition andthen :: "pyerror + 'a \<Rightarrow> ('a \<Rightarrow> pyerror + 'b) \<Rightarrow> pyerror + 'b" where
  "andthen m f = (case m of Inl e \<Rightarrow> Inl e | Inr a \<Rightarrow> f a)"

definition getitem :: "('k \<times> 'v) list \<Rightarrow> 'k \<Rightarrow> pyerror + 'v" where
  "getitem d k = (case map_of d k of None \<Rightarrow> Inl KeyError | Some v \<Rightarrow> Inr v)"

section \<open>lib/thermo.py: Thermo.derivative\<close>

text \<open>
  The attributes \<open>derivative\<close> reads: \<open>self.P\<close>, \<open>self.T\<close> of the state and
  \<open>v\<close>, \<open>alfav\<close>, \<open>kappa\<close>, \<open>cp\<close>, \<open>s\<close> of the phase \<open>fase\<close>.
\<close>

record thermo_point =
  self_P :: real
  self_T :: real

record fase =
  fase_v :: real
  fase_alfav :: real
  fase_kappa :: real
  fase_cp :: real
  fase_s :: real

text \<open>The dict literal \<open>dT\<close> (partial derivatives at constant pressure).  Its entry
  \<open>"s"\<close> divides by \<open>self.T\<close>; the division by zero is raised in \<open>derivative\<close>.\<close>

definition dT :: "thermo_point \<Rightarrow> fase \<Rightarrow> (string \<times> real) list" where
  "dT self fase =
    [(''P'', 0),
     (''T'', 1),
     (''v'', fase_v fase * fase_alfav fase),
     (''u'', fase_cp fase - self_P self * fase_v fase * fase_alfav fase),
     (''h'', fase_cp fase),
     (''s'', fase_cp fase / self_T self),
     (''g'', - fase_s fase),
     (''a'', - self_P self * fase_v fase * fase_alfav fase - fase_s fase)]"

text \<open>The dict literal \<open>dP\<close> (partial derivatives at constant temperature).\<close>

definition dP :: "thermo_point \<Rightarrow> fase \<Rightarrow> (string \<times> real) list" where
  "dP self fase =
    [(''P'', 1),
     (''T'', 0),
     (''v'', - fase_v fase * fase_kappa fase),
     (''u'', fase_v fase * (self_P self * fase_kappa fase - self_T self * fase_alfav fase)),
     (''h'', fase_v fase * (1 - self_T self * fase_alfav fase)),
     (''s'', - fase_v fase * fase_alfav fase),
     (''g'', fase_v fase),
     (''a'', self_P self * fase_v fase * fase_kappa fase)]"

text \<open>
  \<open>return (dP[z]*dT[y]-dT[z]*dP[y])/(dP[x]*dT[y]-dT[x]*dP[y])\<close>.
  Both dicts are built first (so \<open>self.T = 0\<close> raises before any lookup), the
  subscriptions are evaluated left to right, the division last.
\<close>

definition derivative ::
  "thermo_point \<Rightarrow> string \<Rightarrow> string \<Rightarrow> string \<Rightarrow> fase \<Rightarrow> pyerror + real" where
  "derivative self z x y fase =
    (if self_T self = 0 then Inl ZeroDivisionError
     else
       andthen (getitem (dP self fase) z) (\<lambda>pz.
       andthen (getitem (dT self fase) y) (\<lambda>ty.
       andthen (getitem (dT self fase) z) (\<lambda>tz.
       andthen (getitem (dP self fase) y) (\<lambda>py.
       andthen (getitem (dP self fase) x) (\<lambda>px.
       andthen (getitem (dT self fase) x) (\<lambda>tx.
         if px * ty - tx * py = 0 then Inl ZeroDivisionError
         else Inr ((pz * ty - tz * py) / (px * ty - tx * py)))))))))"

text \<open>The eight base variables, and the value a table holds for a key.\<close>

definition basevars :: "string list" where
  "basevars = [''P'', ''T'', ''v'', ''u'', ''h'', ''s'', ''g'', ''a'']"

definition entry :: "(string \<times> real) list \<Rightarrow> string \<Rightarrow> real" where
  "entry d k = (case map_of d k of Some e \<Rightarrow> e | None \<Rightarrow> 0)"

section \<open>lib/thermo.py: the property catalogs\<close>

text \<open>
  Modelled from the spec: the module \<open>lib/unidades.py\<close> is not part of the sources.
  A value built by one of its classes is a magnitude tagged with its unit-kind
  ("quantity + its unit-kind"); the classes are the constructors of \<open>unidades\<close>.
\<close>

datatype unidades = Temperature | Dimensionless | Pressure | Density | MolarDensity
  | SpecificVolume | SpecificVolume_square | Enthalpy | MolarEnthalpy
  | SpecificHeat | MolarSpecificHeat | Speed | InvTemperature | InvPressure
  | TemperaturePressure | EnthalpyPressure | EnthalpyDensity
  | PressureTemperature | PressureDensity | DensityTemperature | DensityPressure
  | Viscosity | ThermalConductivity | Diffusivity | Tension
  | VolFlow | MassFlow | MolarFlow

text \<open>The four classes of the Thermo family.\<close>

datatype thermo_class = Thermo | ThermoWater | ThermoAdvanced | ThermoRefProp

text \<open>
  \<open>list.insert(i, x)\<close>: a negative index counts from the end, an index beyond either
  end is clamped.
\<close>

definition list_insert :: "int \<Rightarrow> 'a \<Rightarrow> 'a list \<Rightarrow> 'a list" where
  "list_insert i x xs =
    (let n = int (length xs);
         j = (if i < 0 then max 0 (n + i) else min i n)
     in take (nat j) xs @ x # drop (nat j) xs)"

text \<open>
  \<open>Thermo.properties\<close>: rows (name, key, unit class).  The names are the source
  strings given to \<open>tr\<close>.
\<close>

definition Thermo_properties :: "(string \<times> string \<times> unidades) list" where
  "Thermo_properties =
    [
     (''Temperature'', ''T'', Temperature),
     (''Reduced temperature'', ''Tr'', Dimensionless),
     (''Pressure'', ''P'', Pressure),
     (''Reduced Pressure'', ''Pr'', Dimensionless),
     (''Quality'', ''x'', Dimensionless),
     (''Density'', ''rho'', Density),
     (''Molar Density'', ''rhoM'', MolarDensity),
     (''Volume'', ''v'', SpecificVolume),
     (''Enthalpy'', ''h'', Enthalpy),
     (''Molar Enthalpy'', ''hM'', MolarEnthalpy),
     (''Entropy'', ''s'', SpecificHeat),
     (''Molar Entropy'', ''sM'', MolarSpecificHeat),
     (''Internal Energy'', ''u'', Enthalpy),
     (''Molar Internal Energy'', ''uM'', MolarEnthalpy),
     (''Helmholtz Free Energy'', ''a'', Enthalpy),
     (''Molar Helmholtz Free Energy'', ''aM'', MolarEnthalpy),
     (''Gibbs Free Energy'', ''g'', Enthalpy),
     (''Molar Gibbs Free Energy'', ''gM'', MolarEnthalpy),
     (''Specific isochoric heat capacity'', ''cv'', SpecificHeat),
     (''Molar Specific isochoric heat capacity'', ''cvM'', MolarSpecificHeat),
     (''Specific isobaric heat capacity'', ''cp'', SpecificHeat),
     (''Molar Specific isobaric heat capacity'', ''cpM'', MolarSpecificHeat),
     (''Heat capacities ratio'', ''cp_cv'', Dimensionless),
     (''Speed sound'', ''w'', Speed),
     (''Compresibility'', ''Z'', Dimensionless),
     (''Fugacity coefficient'', ''fi'', Dimensionless),
     (''Fugacity'', ''f'', Pressure),
     (''Isoentropic exponent'', ''gamma'', Dimensionless),
     (''Volume Expansivity'', ''alfav'', InvTemperature),
     (''Isothermal compresibility'', ''kappa'', InvPressure),
     (''Adiabatic compresibility'', ''kappas'', InvPressure),
     (''Relative pressure coefficient'', ''alfap'', InvTemperature),
     (''Isothermal stress coefficient'', ''betap'', Density),
     (''Joule-Thomson coefficient'', ''joule'', TemperaturePressure),
     (''Isothermal throttling coefficient'', ''deltat'', EnthalpyPressure),
     (''Vaporization heat'', ''Hvap'', Enthalpy),
     (''Vaporization entropy'', ''Svap'', SpecificHeat),
     (''Viscosity'', ''mu'', Viscosity),
     (''Thermal conductivity'', ''k'', ThermalConductivity),
     (''Kinematic viscosity'', ''nu'', Diffusivity),
     (''Thermal diffusivity'', ''alfa'', Diffusivity),
     (''Surface tension'', ''sigma'', Tension),
     (''Prandtl number'', ''Prandt'', Dimensionless),
     (''Ideal gas Specific volume'', ''v0'', SpecificVolume),
     (''Ideal gas Density'', ''rho0'', Density),
     (''Ideal gas Specific enthalpy'', ''h0'', Enthalpy),
     (''Ideal gas Specific internal energy'', ''u0'', Enthalpy),
     (''Ideal gas Specific entropy'', ''s0'', SpecificHeat),
     (''Ideal gas Specific Helmholtz free energy'', ''a0'', Enthalpy),
     (''Ideal gas Specific Gibbs free energy'', ''g0'', Enthalpy),
     (''Ideal gas Specific isobaric heat capacity'', ''cp0'', SpecificHeat),
     (''Ideal gas Specific isochoric heat capacity'', ''cv0'', SpecificHeat),
     (''Ideal gas heat capacities ratio'', ''cp0_cv'', Dimensionless),
     (''Ideal gas Isoentropic exponent'', ''gamma0'', Dimensionless)]"

text \<open>The list \<open>l\<close> of \<open>ThermoWater.properties\<close>.\<close>

definition ThermoWater_l :: "(string \<times> string \<times> unidades) list" where
  "ThermoWater_l =
    [
     (''Dielectric constant'', ''epsilon'', Dimensionless),
     (''Refractive index'', ''n'', Dimensionless)]"

text \<open>The list \<open>l\<close> of \<open>ThermoAdvanced.properties\<close>.\<close>

definition ThermoAdvanced_l :: "(string \<times> string \<times> unidades) list" where
  "ThermoAdvanced_l =
    [
     (''Isentropic temperature-pressure'', ''betas'', TemperaturePressure),
     (''Gruneisen parameter'', ''Gruneisen'', Dimensionless),
     (''2nd virial coefficient'', ''virialB'', SpecificVolume),
     (''3er virial coefficient'', ''virialC'', SpecificVolume_square),
     (''(dp/dT)_rho'', ''dpdT_rho'', PressureTemperature),
     (''(dp/drho)_T'', ''dpdrho_T'', PressureDensity),
     (''(drho/dT)_P'', ''drhodT_P'', DensityTemperature),
     (''(drho/dP)_T'', ''drhodP_T'', DensityPressure),
     (''(dh/dT)_rho'', ''dhdT_rho'', SpecificHeat),
     (''(dh/dP)_T'', ''dhdP_T'', EnthalpyPressure),
     (''(dh/dT)_P'', ''dhdT_P'', SpecificHeat),
     (''(dh/drho)_T'', ''dhdrho_T'', EnthalpyDensity),
     (''(dh/dP)_rho'', ''dhdP_rho'', EnthalpyPressure),
     (''Isothermal expansion coefficient'', ''kt'', Dimensionless),
     (''Isentropic expansion coefficient'', ''ks'', Dimensionless),
     (''Adiabatic bulk modulus'', ''Ks'', Pressure),
     (''Isothermal bulk modulus'', ''Kt'', Pressure),
     (''Internal pressure'', ''IntP'', Pressure),
     (''Negative reciprocal temperature'', ''invT'', InvTemperature),
     (''Specific heat input'', ''hInput'', Enthalpy),
     (''Dielectric constant'', ''epsilon'', Dimensionless)]"

text \<open>The list \<open>l\<close> of \<open>ThermoRefProp.properties\<close>.\<close>

definition ThermoRefProp_l :: "(string \<times> string \<times> unidades) list" where
  "ThermoRefProp_l =
    [
     (''Ideal Pressure'', ''P0'', Pressure),
     (''Residual Pressure'', ''P_Pideal'', Pressure),
     (''K value'', ''K'', Dimensionless),
     (''Heat Capacity along the saturation line'', ''csat'', SpecificHeat),
     (''dP/dT [sat]'', ''dpdt_sat'', PressureTemperature),
     (''Cv two phases'', ''cv2p'', SpecificHeat),
     (''Excess volume'', ''vE'', SpecificVolume),
     (''Excess internal energy'', ''uE'', Enthalpy),
     (''Excess enthalpy'', ''hE'', Enthalpy),
     (''Excess entropy'', ''sE'', SpecificHeat),
     (''Excess Helmholtz energy'', ''aE'', Enthalpy),
     (''Excess Gibbs energy'', ''gE'', Enthalpy),
     (''Residual pressure'', ''pr'', SpecificVolume),
     (''Residual internal energy'', ''ur'', Enthalpy),
     (''Residual enthalpy'', ''hr'', Enthalpy),
     (''Residual entropy'', ''sr'', SpecificHeat),
     (''Residual Helmholtz energy'', ''ar'', Enthalpy),
     (''Residual Gibbs energy'', ''gr'', Enthalpy),
     (''Residual isobaric heat capacity'', ''cpr'', SpecificHeat),
     (''Residual isochoric heat capacity'', ''cvr'', SpecificHeat),
     (''Supercompressibility factor'', ''fpv'', Dimensionless),
     (''Chemical potential'', ''chempot'', Enthalpy),
     (''Fourth virial coefficient'', ''virialD'', Dimensionless),
     (''Second acoustic virial coefficient'', ''virialBa'', SpecificVolume),
     (''Third acoustic virial coefficient'', ''virialCa'', SpecificVolume_square),
     (''dC/dT'', ''dCdt'', Dimensionless),
     (''d'' @ [CHR 0xC2, CHR 0xB2] @ ''C/dT'' @ [CHR 0xC2, CHR 0xB2], ''dCdt2'', Dimensionless),
     (''dB/dT'', ''dBdt'', Dimensionless),
     (''b12'', ''b12'', SpecificVolume),
     (''Critical flow factor'', ''cstar'', Dimensionless)]"

text \<open>
  \<open>cls.properties()\<close>.  \<open>ThermoWater\<close> inserts each row of its list at index \<open>-11\<close>
  of a copy of the base catalog, \<open>ThermoAdvanced\<close> at index \<open>34\<close>, \<open>ThermoRefProp\<close>
  appends each row to the catalog of \<open>ThermoAdvanced\<close>.
\<close>

definition ThermoWater_properties :: "(string \<times> string \<times> unidades) list" where
  "ThermoWater_properties =
     fold (\<lambda>p prop. list_insert (- 11) p prop) ThermoWater_l Thermo_properties"

definition ThermoAdvanced_properties :: "(string \<times> string \<times> unidades) list" where
  "ThermoAdvanced_properties =
     fold (\<lambda>p prop. list_insert 34 p prop) ThermoAdvanced_l Thermo_properties"

definition ThermoRefProp_properties :: "(string \<times> string \<times> unidades) list" where
  "ThermoRefProp_properties =
     fold (\<lambda>p prop. prop @ [p]) ThermoRefProp_l ThermoAdvanced_properties"

fun properties :: "thermo_class \<Rightarrow> (string \<times> string \<times> unidades) list" where
  "properties Thermo = Thermo_properties"
| "properties ThermoWater = ThermoWater_properties"
| "properties ThermoAdvanced = ThermoAdvanced_properties"
| "properties ThermoRefProp = ThermoRefProp_properties"

definition propertiesName :: "thermo_class \<Rightarrow> string list" where
  "propertiesName cls = map (\<lambda>prop. fst prop) (properties cls)"

definition propertiesKey :: "thermo_class \<Rightarrow> string list" where
  "propertiesKey cls = map (\<lambda>prop. fst (snd prop)) (properties cls)"

definition propertiesUnit :: "thermo_class \<Rightarrow> unidades list" where
  "propertiesUnit cls = map (\<lambda>prop. snd (snd prop)) (properties cls)"

text \<open>\<open>cls._dictUnit()\<close>: the dict from key to unit class; a later row of a key replaces
  an earlier one.\<close>

definition dictUnit :: "thermo_class \<Rightarrow> (string \<times> unidades) list" where
  "dictUnit cls = fold (\<lambda>(name, key, unit) d. AList.update key unit d) (properties cls) []"

text \<open>
  \<open>cls.propertiesGlobal()\<close>.  \<open>ThermoWater\<close> inherits the method of \<open>Thermo\<close>;
  \<open>ThermoAdvanced\<close> appends \<open>invT\<close>; \<open>ThermoRefProp\<close> appends each key of \<open>new\<close>.
\<close>

definition ThermoRefProp_new :: "string list" where
  "ThermoRefProp_new =
    [''P0'', ''P_Pideal'', ''K'', ''csat'', ''dpdt_sat'', ''cv2p'', ''vE'', ''uE'',
     ''hE'', ''sE'', ''aE'', ''gE'', ''pr'', ''ur'', ''hr'', ''sr'', ''ar'', ''gr'',
     ''cpr'', ''cvr'', ''fpv'', ''chempot'', ''b12'', ''cstar'']"

definition Thermo_propertiesGlobal :: "string list" where
  "Thermo_propertiesGlobal =
    [''T'', ''Tr'', ''P'', ''Pr'', ''x'', ''Hvap'', ''Svap'', ''v0'', ''rho0'', ''h0'',
     ''u0'', ''s0'', ''a0'', ''g0'', ''cp0'', ''cv0'', ''cp0_cv'', ''gamma0'']"

definition ThermoAdvanced_propertiesGlobal :: "string list" where
  "ThermoAdvanced_propertiesGlobal = Thermo_propertiesGlobal @ [''invT'']"

definition ThermoRefProp_propertiesGlobal :: "string list" where
  "ThermoRefProp_propertiesGlobal =
     fold (\<lambda>p prop. prop @ [p]) ThermoRefProp_new ThermoAdvanced_propertiesGlobal"

fun propertiesGlobal :: "thermo_class \<Rightarrow> string list" where
  "propertiesGlobal Thermo = Thermo_propertiesGlobal"
| "propertiesGlobal ThermoWater = Thermo_propertiesGlobal"
| "propertiesGlobal ThermoAdvanced = ThermoAdvanced_propertiesGlobal"
| "propertiesGlobal ThermoRefProp = ThermoRefProp_propertiesGlobal"

text \<open>
  \<open>cls.propertiesPhase()\<close>: the loop \<open>for p in total: if p not in single:
  prop.append(p)\<close>, with \<open>prop\<close> as accumulator.
\<close>

fun propertiesPhase_loop :: "string list \<Rightarrow> string list \<Rightarrow> string list \<Rightarrow> string list" where
  "propertiesPhase_loop single [] prop = prop"
| "propertiesPhase_loop single (p # tot) prop =
     (if p \<notin> set single then propertiesPhase_loop single tot (prop @ [p])
      else propertiesPhase_loop single tot prop)"

definition propertiesPhase :: "thermo_class \<Rightarrow> string list" where
  "propertiesPhase cls = propertiesPhase_loop (propertiesGlobal cls) (propertiesKey cls) []"

section \<open>lib/utilities.py: SimpleEq\<close>

text \<open>
  \<open>x ** t\<close> for floats, idealised on the reals: \<open>x ** 0\<close> is 1 for every \<open>x\<close>;
  \<open>0 ** t\<close> is 0 for positive \<open>t\<close> and raises \<open>ZeroDivisionError\<close> for negative
  \<open>t\<close>; a negative base with an exponent that is not a whole number gives a complex
  number, which is no value of this model (\<open>ComplexResult\<close>: \<open>SimpleEq\<close> then returns
  a complex number, or \<open>math.exp\<close> raises \<open>TypeError\<close>).
\<close>

definition py_pow :: "real \<Rightarrow> real \<Rightarrow> pyerror + real" where
  "py_pow x t =
    (if t = 0 then Inr 1
     else if x = 0 then (if t < 0 then Inl ZeroDivisionError else Inr 0)
     else if 0 < x then Inr (x powr t)
     else if of_int \<lfloor>t\<rfloor> = t
       then Inr (if even \<lfloor>t\<rfloor> then (- x) powr t else - ((- x) powr t))
     else Inl ComplexResult)"

text \<open>
  The coefficient dict: its entry \<open>eq\<close>, and its entries \<open>n\<close> and \<open>t\<close> where it has
  them (\<open>SimpleEq\<close> reads no other key).
\<close>

record coef =
  coef_eq :: int
  coef_n :: "real list option"
  coef_t :: "real list option"

text \<open>The loop \<open>for n, t in zip(coef["n"], coef["t"]): pr += n*Tita**t\<close>.\<close>

fun SimpleEq_loop :: "real \<Rightarrow> (real \<times> real) list \<Rightarrow> real \<Rightarrow> pyerror + real" where
  "SimpleEq_loop Tita [] pr = Inr pr"
| "SimpleEq_loop Tita ((n, t) # rest) pr =
     andthen (py_pow Tita t) (\<lambda>w. SimpleEq_loop Tita rest (pr + n * w))"

text \<open>
  \<open>SimpleEq(Tc, T, coef)\<close>.  \<open>T/Tc\<close> raises for \<open>Tc = 0\<close> and \<open>Tc/T\<close> (form 3 only)
  for \<open>T = 0\<close>; \<open>coef["n"]\<close> and \<open>coef["t"]\<close> raise \<open>KeyError\<close> on a dict without
  them; \<open>math.exp\<close> is the real exponential.
\<close>

definition SimpleEq :: "real \<Rightarrow> real \<Rightarrow> coef \<Rightarrow> pyerror + real" where
  "SimpleEq Tc T coef =
    (if Tc = 0 then Inl ZeroDivisionError
     else
       let Tita = 1 - T / Tc in
       andthen (case coef_n coef of None \<Rightarrow> Inl KeyError | Some ns \<Rightarrow> Inr ns) (\<lambda>ns.
       andthen (case coef_t coef of None \<Rightarrow> Inl KeyError | Some ts \<Rightarrow> Inr ts) (\<lambda>ts.
       andthen (SimpleEq_loop Tita (zip ns ts) 0) (\<lambda>pr.
       let pr = (if coef_eq coef = 1 then pr + 1 else pr) in
       andthen (if coef_eq coef = 3
                then (if T = 0 then Inl ZeroDivisionError else Inr (pr * (Tc / T)))
                else Inr pr) (\<lambda>pr.
       let pr = (if coef_eq coef \<in> {2, 3} then exp pr else pr) in
       Inr pr)))))"

text \<open>
  \<open>SF6._vapor_Pressure\<close> of \<open>lib/mEoS/SF6.py\<close>: a dict with the keys \<open>eq\<close>, \<open>ao\<close> and
  \<open>exp\<close>, and neither \<open>n\<close> nor \<open>t\<close>.
\<close>

definition SF6_vapor_Pressure :: coef where
  "SF6_vapor_Pressure = \<lparr>coef_eq = 6, coef_n = None, coef_t = None\<rparr>"

text \<open>The value of \<open>x ** t\<close> where it is a real number (0 elsewhere).\<close>

definition pow_value :: "real \<Rightarrow> real \<Rightarrow> real" where
  "pow_value x t = (case py_pow x t of Inr w \<Rightarrow> w | Inl e \<Rightarrow> 0)"

definition pow_is_real :: "real \<Rightarrow> real \<Rightarrow> bool" where
  "pow_is_real x t = (case py_pow x t of Inr w \<Rightarrow> True | Inl e \<Rightarrow> False)"

section \<open>tools/UI_Tables/lib.py: getMethod and calcPoint\<close>

text \<open>
  The two booleans \<open>getMethod\<close> reads from section \<open>MEOS\<close> of the preferences file.
\<close>

record prefs =
  pref_coolprop :: bool
  pref_refprop :: bool

definition getMethod :: "prefs \<Rightarrow> string" where
  "getMethod pref =
    (if pref_coolprop pref \<and> pref_refprop pref then ''REFPROP''
     else if pref_coolprop pref then ''COOLPROP''
     else ''MEOS'')"

text \<open>
  The options \<open>eq\<close>, \<open>visco\<close> and \<open>thermal\<close> that \<open>config\<close> provides, as a dict or
  through \<open>config.getint("MEoS", ...)\<close>.
\<close>

record config =
  config_eq :: int
  config_visco :: int
  config_thermal :: int

text \<open>The validity window an equation dict declares, and a melting-curve dict.\<close>

record equation =
  eq_Tmin :: real
  eq_Tmax :: real
  eq_Pmin :: real
  eq_Pmax :: real

record melting =
  melting_Tmin :: real
  melting_Tmax :: real

text \<open>
  What \<open>calcPoint\<close> reads of a calculated state: \<open>status\<close>, \<open>T\<close>, \<open>P\<close>, the class
  attribute \<open>_melting\<close> (\<open>None\<close> when it is falsy) and the method \<open>_Melting_Pressure\<close>.
  The classes that compute a state (\<open>lib/meos.py\<close>, \<open>lib/coolProp.py\<close>) are not part
  of the sources: the calls \<open>fluid(T=..., x=...)\<close> and \<open>fluid._new(**kwargs)\<close> and
  the method \<open>_Melting_Pressure\<close> are parameters, carried by the records.
\<close>

record fluido =
  fluido_status :: int
  fluido_T :: real
  fluido_P :: real
  fluido_melting :: "melting option"
  fluido_Melting_Pressure :: "real \<Rightarrow> real"

text \<open>\<open>fluid.eq\<close> is a tuple of equation dicts for a mEoS class, one dict for CoolProp.\<close>

datatype fluid_eq = EqTuple "equation list" | EqDict equation

record fluid =
  fluid_eq :: fluid_eq
  fluid_call :: "real \<Rightarrow> real \<Rightarrow> fluido"
  fluid_new :: "(string \<times> real) list \<Rightarrow> fluido"

text \<open>The calls into the state classes, in the order \<open>calcPoint\<close> makes them.\<close>

datatype event = Call real real | New "(string \<times> real) list" | MeltingPressure real

text \<open>\<open>xs[i]\<close> on a tuple or list, and \<open>d.update(e)\<close> on a dict.\<close>

definition py_index :: "'a list \<Rightarrow> int \<Rightarrow> pyerror + 'a" where
  "py_index xs i =
    (let n = int (length xs); j = (if i < 0 then n + i else i)
     in if 0 \<le> j \<and> j < n then Inr (xs ! nat j) else Inl IndexError)"

definition dict_update :: "('k \<times> 'v) list \<Rightarrow> ('k \<times> 'v) list \<Rightarrow> ('k \<times> 'v) list" where
  "dict_update d e = fold (\<lambda>(k, v) d. AList.update k v d) e d"

text \<open>The names \<open>Tmin\<close>, \<open>Tmax\<close>, \<open>Pmin\<close>, \<open>Pmax\<close> of \<open>calcPoint\<close>, once bound.\<close>

record limits =
  Tmin :: real
  Tmax :: real
  Pmin :: real
  Pmax :: real

text \<open>
  Lines 86--105: the limits by method.  For \<open>MEOS\<close> the equation dict is
  \<open>fluid.eq[option["eq"]]\<close>, \<open>Pmin\<close> is the pressure of \<open>fluid(T=Tmin, x=0)\<close> and
  \<open>Pmax\<close> the declared one times 1000; for \<open>COOLPROP\<close> all four are declared; for
  \<open>REFPROP\<close> the names stay unbound (\<open>None\<close>).
\<close>

definition calcPoint_limits ::
  "string \<Rightarrow> fluid \<Rightarrow> config \<Rightarrow> pyerror + (event list \<times> limits option)" where
  "calcPoint_limits method fluid config =
    (if method = ''MEOS'' then
       (case fluid_eq fluid of
          EqDict d \<Rightarrow> Inl KeyError
        | EqTuple eqs \<Rightarrow>
            andthen (py_index eqs (config_eq config)) (\<lambda>e.
              Inr ([Call (eq_Tmin e) 0],
                   Some \<lparr>Tmin = eq_Tmin e, Tmax = eq_Tmax e,
                         Pmin = fluido_P (fluid_call fluid (eq_Tmin e) 0),
                         Pmax = eq_Pmax e * 1000\<rparr>)))
     else if method = ''COOLPROP'' then
       (case fluid_eq fluid of
          EqTuple eqs \<Rightarrow> Inl TypeError
        | EqDict d \<Rightarrow>
            Inr ([], Some \<lparr>Tmin = eq_Tmin d, Tmax = eq_Tmax d,
                           Pmin = eq_Pmin d, Pmax = eq_Pmax d\<rparr>))
     else Inr ([], None))"

text \<open>
  Lines 107--112: the check of the inputs; \<open>True\<close> stands for \<open>return None\<close>.  Reading
  an unbound limit raises \<open>UnboundLocalError\<close>.
\<close>

definition calcPoint_precheck :: "(string \<times> real) list \<Rightarrow> limits option \<Rightarrow> pyerror + bool" where
  "calcPoint_precheck kwargs lims =
    andthen
      (case map_of kwargs ''T'' of
         None \<Rightarrow> Inr False
       | Some t \<Rightarrow> (case lims of None \<Rightarrow> Inl UnboundLocalError
                    | Some l \<Rightarrow> Inr (t < Tmin l \<or> t > Tmax l)))
      (\<lambda>rejected.
         if rejected then Inr True
         else (case map_of kwargs ''P'' of
                 None \<Rightarrow> Inr False
               | Some p \<Rightarrow> (case lims of None \<Rightarrow> Inl UnboundLocalError
                            | Some l \<Rightarrow> Inr (p < Pmin l - 1 \<or> p > Pmax l + 1))))"

text \<open>
  Lines 118--122: for \<open>MEOS\<close>, inside the declared range of the melting curve, the
  melting pressure at \<open>fluido.T\<close> lowers \<open>Pmax\<close>.
\<close>

definition calcPoint_melting :: "string \<Rightarrow> fluido \<Rightarrow> limits \<Rightarrow> event list \<times> limits" where
  "calcPoint_melting method fluido l =
    (if method = ''MEOS'' then
       (case fluido_melting fluido of
          None \<Rightarrow> ([], l)
        | Some m \<Rightarrow>
            if melting_Tmin m \<le> fluido_T fluido \<and> fluido_T fluido \<le> melting_Tmax m
            then ([MeltingPressure (fluido_T fluido)],
                  l\<lparr>Pmax := min (Pmax l) (fluido_Melting_Pressure fluido (fluido_T fluido))\<rparr>)
            else ([], l))
     else ([], l))"

text \<open>
  \<open>calcPoint(fluid, config, **kwargs)\<close>: the calls made, and the exception raised or
  the value returned (\<open>None\<close> or the calculated state).
\<close>

definition calcPoint ::
  "prefs \<Rightarrow> fluid \<Rightarrow> config \<Rightarrow> (string \<times> real) list
     \<Rightarrow> event list \<times> (pyerror + fluido option)" where
  "calcPoint pref fluid config kwargs0 =
    (let method = getMethod pref;
         kwargs = (if method = ''MEOS''
                   then dict_update kwargs0
                          [(''eq'', of_int (config_eq config)),
                           (''visco'', of_int (config_visco config)),
                           (''thermal'', of_int (config_thermal config))]
                   else kwargs0)
     in case calcPoint_limits method fluid config of
          Inl e \<Rightarrow> ([], Inl e)
        | Inr (ev0, lims) \<Rightarrow>
            (case calcPoint_precheck kwargs lims of
               Inl e \<Rightarrow> (ev0, Inl e)
             | Inr True \<Rightarrow> (ev0, Inr None)
             | Inr False \<Rightarrow>
                 let fluido = fluid_new fluid kwargs;
                     ev1 = ev0 @ [New kwargs]
                 in if fluido_status fluido \<notin> {1, 3} then (ev1, Inr None)
                    else (case lims of
                            None \<Rightarrow> (ev1, Inl UnboundLocalError)
                          | Some l0 \<Rightarrow>
                              let (ev2, l) = calcPoint_melting method fluido l0
                              in if fluido_P fluido < Pmin l - 1
                                    \<or> fluido_P fluido > Pmax l + 1
                                    \<or> fluido_T fluido < Tmin l
                                    \<or> fluido_T fluido > Tmax l
                                 then (ev1 @ ev2, Inr None)
                                 else (ev1 @ ev2, Inr (Some fluido)))))"

text \<open>
  Example data: a mEoS-like fluid with one equation, valid from 100 K to 500 K and up
  to 1000 kPa, whose saturation pressure at \<open>Tmin\<close> is 1000 Pa, and a stand-in for the
  solver that reports success (status 1) at the \<open>T\<close> and \<open>P\<close> it was asked for.  The
  melting pressure is \<open>5 T\<close>.
\<close>

definition toy_fluido :: "melting option \<Rightarrow> real \<Rightarrow> real \<Rightarrow> fluido" where
  "toy_fluido mel t p =
    \<lparr>fluido_status = 1, fluido_T = t, fluido_P = p, fluido_melting = mel,
     fluido_Melting_Pressure = (\<lambda>T. 5 * T)\<rparr>"

definition toy_fluid :: "melting option \<Rightarrow> fluid" where
  "toy_fluid mel =
    \<lparr>fluid_eq = EqTuple [\<lparr>eq_Tmin = 100, eq_Tmax = 500, eq_Pmin = 1, eq_Pmax = 1000\<rparr>],
     fluid_call = (\<lambda>T x. toy_fluido mel T 1000),
     fluid_new = (\<lambda>kwargs. toy_fluido mel
                    (case map_of kwargs ''T'' of Some t \<Rightarrow> t | None \<Rightarrow> 0)
                    (case map_of kwargs ''P'' of Some p \<Rightarrow> p | None \<Rightarrow> 0))\<rparr>"

definition toy_kwargs :: "real \<Rightarrow> real \<Rightarrow> (string \<times> real) list" where
  "toy_kwargs t p = [(''T'', t), (''P'', p)]"

definition toy_melting :: melting where
  "toy_melting = \<lparr>melting_Tmin = 100, melting_Tmax = 800\<rparr>"

definition meos_prefs :: prefs where
  "meos_prefs = \<lparr>pref_coolprop = False, pref_refprop = False\<rparr>"

definition config0 :: config where
  "config0 = \<lparr>config_eq = 0, config_visco = 0, config_thermal = 0\<rparr>"

section \<open>lib/thermo.py: writeStatetoJSON and readStatefromJSON\<close>

text \<open>
  The values held by attributes and by the entries of a state dict: a plain float, a
  value of a class of \<open>unidades\<close> (a float tagged with its unit class), or a list.
\<close>

datatype pyval = Float real | Quantity unidades real | PyList "pyval list"

type_synonym dict = "(string \<times> pyval) list"

text \<open>
  Modelled from the spec: \<open>lib/unidades.py\<close> is not part of the sources.  The call
  \<open>unidades.U(x)\<close> tags the magnitude of the number \<open>x\<close> (a float, or a value of any
  unit class) with the unit-kind \<open>U\<close>; the classes derive from \<open>float\<close>, so a list
  raises \<open>TypeError\<close>.
\<close>

definition unidad :: "unidades \<Rightarrow> pyval \<Rightarrow> pyerror + pyval" where
  "unidad u x =
    (case x of
       Float r \<Rightarrow> Inr (Quantity u r)
     | Quantity u' r \<Rightarrow> Inr (Quantity u r)
     | PyList xs \<Rightarrow> Inl TypeError)"

text \<open>The float a value is in arithmetic, and \<open>x / y\<close>.\<close>

definition as_float :: "pyval \<Rightarrow> pyerror + real" where
  "as_float x =
    (case x of
       Float r \<Rightarrow> Inr r
     | Quantity u r \<Rightarrow> Inr r
     | PyList xs \<Rightarrow> Inl TypeError)"

definition py_truediv :: "pyval \<Rightarrow> pyval \<Rightarrow> pyerror + pyval" where
  "py_truediv x y =
    andthen (as_float x) (\<lambda>a.
    andthen (as_float y) (\<lambda>b.
      if b = 0 then Inl ZeroDivisionError else Inr (Float (a / b))))"

text \<open>\<open>[f(x) for x in xs]\<close>: the first exception ends the comprehension.\<close>

fun map_each :: "('a \<Rightarrow> pyerror + 'b) \<Rightarrow> 'a list \<Rightarrow> pyerror + 'b list" where
  "map_each f [] = Inr []"
| "map_each f (x # xs) =
     andthen (f x) (\<lambda>y. andthen (map_each f xs) (\<lambda>ys. Inr (y # ys)))"

text \<open>
  An instance of a class of the Thermo family: the flag \<open>_bool\<close> and the instance
  attributes.  The class \<open>Thermo\<close> gives \<open>h\<close>, \<open>s\<close>, \<open>u\<close>, \<open>a\<close> and \<open>g\<close> the default 0;
  reading any other attribute that was never set raises \<open>AttributeError\<close>.
\<close>

record thermo =
  thermo_bool :: bool
  attrs :: dict

definition class_attrs :: dict where
  "class_attrs =
    [(''h'', Float 0), (''s'', Float 0), (''u'', Float 0), (''a'', Float 0), (''g'', Float 0)]"

definition getattr :: "thermo \<Rightarrow> string \<Rightarrow> pyerror + pyval" where
  "getattr self a =
    (case map_of (attrs self) a of
       Some x \<Rightarrow> Inr x
     | None \<Rightarrow> (case map_of class_attrs a of
                  Some x \<Rightarrow> Inr x
                | None \<Rightarrow> Inl AttributeError))"

definition setattr :: "thermo \<Rightarrow> string \<Rightarrow> pyval \<Rightarrow> thermo" where
  "setattr self a x = self\<lparr>attrs := AList.update a x (attrs self)\<rparr>"

subsection \<open>Writing\<close>

text \<open>
  A run of statements \<open>fluid[key] = self.attr\<close>, one for each pair (key, attr) in order.
\<close>

fun store_all :: "thermo \<Rightarrow> (string \<times> string) list \<Rightarrow> dict \<Rightarrow> pyerror + dict" where
  "store_all self [] fluid = Inr fluid"
| "store_all self ((key, a) # rest) fluid =
     andthen (getattr self a) (\<lambda>x. store_all self rest (AList.update key x fluid))"

text \<open>The statements of \<open>Thermo.writeStatetoJSON\<close> under \<open>if self._bool\<close>.\<close>

definition Thermo_written :: "(string \<times> string) list" where
  "Thermo_written =
    [
     (''M'', ''M''),
     (''v'', ''v''),
     (''h'', ''h''),
     (''s'', ''s''),
     (''u'', ''u''),
     (''a'', ''a''),
     (''g'', ''g''),
     (''cv'', ''cv''),
     (''cp'', ''cp''),
     (''cp/cv'', ''cp_cv''),
     (''w'', ''w''),
     (''Z'', ''Z''),
     (''alfav'', ''alfav''),
     (''kappa'', ''kappa''),
     (''kappas'', ''kappas''),
     (''mu'', ''mu''),
     (''k'', ''k''),
     (''nu'', ''nu''),
     (''Prandt'', ''Prandt''),
     (''alfa'', ''alfa''),
     (''joule'', ''joule''),
     (''deltat'', ''deltat''),
     (''gamma'', ''gamma''),
     (''alfap'', ''alfap''),
     (''betap'', ''betap''),
     (''fi'', ''fi''),
     (''f'', ''f''),
     (''volFlow'', ''Q''),
     (''massFlow'', ''caudalmasico''),
     (''molarFlow'', ''caudalmolar''),
     (''fraction'', ''fraccion''),
     (''massFraction'', ''fraccion_masica''),
     (''massUnitFlow'', ''caudalunitariomasico''),
     (''molarUnitFlow'', ''caudalunitariomolar'')]"

text \<open>Those that \<open>ThermoWater\<close>, \<open>ThermoAdvanced\<close> and \<open>ThermoRefProp\<close> add.\<close>

definition ThermoWater_written :: "(string \<times> string) list" where
  "ThermoWater_written =
    [
     (''n'', ''n''),
     (''epsilon'', ''epsilon'')]"

definition ThermoAdvanced_written :: "(string \<times> string) list" where
  "ThermoAdvanced_written =
    [
     (''betas'', ''betas''),
     (''Gruneisen'', ''Gruneisen''),
     (''virialB'', ''virialB''),
     (''virialC'', ''virialC''),
     (''dpdT_rho'', ''dpdT_rho''),
     (''dpdrho_T'', ''dpdrho_T''),
     (''drhodT_P'', ''drhodT_P''),
     (''drhodP_T'', ''drhodP_T''),
     (''dhdT_rho'', ''dhdT_rho''),
     (''dhdP_T'', ''dhdP_T''),
     (''dhdT_P'', ''dhdT_P''),
     (''dhdrho_T'', ''dhdrho_T''),
     (''dhdP_rho'', ''dhdP_rho''),
     (''kt'', ''kt''),
     (''ks'', ''ks''),
     (''Ks'', ''Ks''),
     (''Kt'', ''Kt''),
     (''IntP'', ''IntP''),
     (''invT'', ''invT''),
     (''hInput'', ''hInput''),
     (''epsilon'', ''epsilon'')]"

definition ThermoRefProp_written :: "(string \<times> string) list" where
  "ThermoRefProp_written =
    [
     (''virialD'', ''virialD''),
     (''virialBa'', ''virialBa''),
     (''virialCa'', ''virialCa''),
     (''dCdt'', ''dCdt''),
     (''dCdt2'', ''dCdt2''),
     (''dBdt'', ''dBdt'')]"

text \<open>
  \<open>Thermo.writeStatetoJSON(self, state, fase)\<close>: \<open>state\<close> maps a phase key to the
  dict of the phase.
\<close>

definition Thermo_writeStatetoJSON ::
  "thermo \<Rightarrow> (string \<times> dict) list \<Rightarrow> string \<Rightarrow> pyerror + (string \<times> dict) list" where
  "Thermo_writeStatetoJSON self state fase =
    andthen (if thermo_bool self then store_all self Thermo_written [] else Inr [])
      (\<lambda>fluid. Inr (AList.update fase fluid state))"

text \<open>
  A subclass calls the method of its parent, then, under \<open>if self._bool\<close>, runs its own
  statements \<open>state[fase][key] = self.attr\<close>.
\<close>

definition write_more ::
  "(string \<times> string) list \<Rightarrow> thermo \<Rightarrow> (string \<times> dict) list \<Rightarrow> string
     \<Rightarrow> pyerror + (string \<times> dict) list" where
  "write_more written self state fase =
    (if thermo_bool self
     then andthen (getitem state fase) (\<lambda>fluid.
          andthen (store_all self written fluid) (\<lambda>fluid.
            Inr (AList.update fase fluid state)))
     else Inr state)"

definition ThermoWater_writeStatetoJSON ::
  "thermo \<Rightarrow> (string \<times> dict) list \<Rightarrow> string \<Rightarrow> pyerror + (string \<times> dict) list" where
  "ThermoWater_writeStatetoJSON self state fase =
    andthen (Thermo_writeStatetoJSON self state fase)
      (\<lambda>state. write_more ThermoWater_written self state fase)"

definition ThermoAdvanced_writeStatetoJSON ::
  "thermo \<Rightarrow> (string \<times> dict) list \<Rightarrow> string \<Rightarrow> pyerror + (string \<times> dict) list" where
  "ThermoAdvanced_writeStatetoJSON self state fase =
    andthen (Thermo_writeStatetoJSON self state fase)
      (\<lambda>state. write_more ThermoAdvanced_written self state fase)"

definition ThermoRefProp_writeStatetoJSON ::
  "thermo \<Rightarrow> (string \<times> dict) list \<Rightarrow> string \<Rightarrow> pyerror + (string \<times> dict) list" where
  "ThermoRefProp_writeStatetoJSON self state fase =
    andthen (ThermoAdvanced_writeStatetoJSON self state fase)
      (\<lambda>state. write_more ThermoRefProp_written self state fase)"

fun writeStatetoJSON ::
  "thermo_class \<Rightarrow> thermo \<Rightarrow> (string \<times> dict) list \<Rightarrow> string
     \<Rightarrow> pyerror + (string \<times> dict) list" where
  "writeStatetoJSON Thermo = Thermo_writeStatetoJSON"
| "writeStatetoJSON ThermoWater = ThermoWater_writeStatetoJSON"
| "writeStatetoJSON ThermoAdvanced = ThermoAdvanced_writeStatetoJSON"
| "writeStatetoJSON ThermoRefProp = ThermoRefProp_writeStatetoJSON"

subsection \<open>Reading\<close>

text \<open>
  The statements of \<open>readStatefromJSON\<close>, each a function of the dict \<open>fluid\<close> and the
  instance:
  \<^item> \<open>from_key a U k\<close> is \<open>self.a = unidades.U(fluid[k])\<close>;
  \<^item> \<open>from_zero a U\<close> is \<open>self.a = unidades.U(0)\<close>;
  \<^item> \<open>from_key_each a U k\<close> is \<open>self.a = [unidades.U(x) for x in fluid[k]]\<close>;
  \<^item> \<open>from_key_single a U k\<close> is \<open>self.a = [unidades.U(fluid[k])]\<close>;
  \<^item> \<open>from_inverse a U b\<close> is \<open>self.a = unidades.U(1/self.b)\<close>;
  \<^item> \<open>from_ratio a U b c\<close> is \<open>self.a = unidades.U(self.b/self.c)\<close>.
\<close>

type_synonym statement = "dict \<Rightarrow> thermo \<Rightarrow> pyerror + thermo"

definition from_key :: "string \<Rightarrow> unidades \<Rightarrow> string \<Rightarrow> statement" where
  "from_key a u k fluid self =
    andthen (getitem fluid k) (\<lambda>x.
    andthen (unidad u x) (\<lambda>q. Inr (setattr self a q)))"

definition from_zero :: "string \<Rightarrow> unidades \<Rightarrow> statement" where
  "from_zero a u fluid self =
    andthen (unidad u (Float 0)) (\<lambda>q. Inr (setattr self a q))"

definition from_key_each :: "string \<Rightarrow> unidades \<Rightarrow> string \<Rightarrow> statement" where
  "from_key_each a u k fluid self =
    andthen (getitem fluid k) (\<lambda>x.
      case x of
        PyList xs \<Rightarrow> andthen (map_each (unidad u) xs) (\<lambda>qs. Inr (setattr self a (PyList qs)))
      | Float r \<Rightarrow> Inl TypeError
      | Quantity u' r \<Rightarrow> Inl TypeError)"

definition from_key_single :: "string \<Rightarrow> unidades \<Rightarrow> string \<Rightarrow> statement" where
  "from_key_single a u k fluid self =
    andthen (getitem fluid k) (\<lambda>x.
    andthen (unidad u x) (\<lambda>q. Inr (setattr self a (PyList [q]))))"

definition from_inverse :: "string \<Rightarrow> unidades \<Rightarrow> string \<Rightarrow> statement" where
  "from_inverse a u b fluid self =
    andthen (getattr self b) (\<lambda>y.
    andthen (py_truediv (Float 1) y) (\<lambda>x.
    andthen (unidad u x) (\<lambda>q. Inr (setattr self a q))))"

definition from_ratio :: "string \<Rightarrow> unidades \<Rightarrow> string \<Rightarrow> string \<Rightarrow> statement" where
  "from_ratio a u b c fluid self =
    andthen (getattr self b) (\<lambda>x.
    andthen (getattr self c) (\<lambda>y.
    andthen (py_truediv x y) (\<lambda>z.
    andthen (unidad u z) (\<lambda>q. Inr (setattr self a q)))))"

text \<open>Statements in sequence: an exception ends the run.\<close>

fun run :: "statement list \<Rightarrow> statement" where
  "run [] fluid self = Inr self"
| "run (st # sts) fluid self = andthen (st fluid self) (\<lambda>self. run sts fluid self)"

text \<open>
  \<open>try: body except exc: handler\<close>.  The handler starts from the instance as it was
  before the body; in each use below the handler assigns every attribute the body may
  have assigned, so the attributes the body had set by the time of the exception do
  not show.
\<close>

definition try_except :: "pyerror \<Rightarrow> statement \<Rightarrow> statement \<Rightarrow> statement" where
  "try_except exc body handler fluid self =
    (case body fluid self of
       Inr self' \<Rightarrow> Inr self'
     | Inl e \<Rightarrow> if e = exc then handler fluid self else Inl e)"

text \<open>The statements of \<open>Thermo.readStatefromJSON\<close> after \<open>self._bool = True\<close>.\<close>

definition Thermo_read :: "statement list" where
  "Thermo_read =
    [
     from_key ''M'' Dimensionless ''M'',
     from_key ''v'' SpecificVolume ''v'',
     from_inverse ''rho'' Density ''v'',
     from_key ''h'' Enthalpy ''h'',
     from_key ''s'' SpecificHeat ''s'',
     from_key ''u'' Enthalpy ''u'',
     from_key ''a'' Enthalpy ''a'',
     from_key ''g'' Enthalpy ''g'',
     from_key ''cv'' SpecificHeat ''cv'',
     from_key ''cp'' SpecificHeat ''cp'',
     from_key ''cp_cv'' Dimensionless ''cp/cv'',
     from_key ''w'' Speed ''w'',
     from_key ''Z'' Dimensionless ''Z'',
     from_key ''alfav'' InvTemperature ''alfav'',
     from_key ''kappa'' InvPressure ''kappa'',
     try_except KeyError
       (run [from_key ''kappas'' InvPressure ''kappas''])
       (run [from_zero ''kappas'' InvPressure]),
     from_key ''mu'' Viscosity ''mu'',
     from_key ''k'' ThermalConductivity ''k'',
     from_key ''nu'' Diffusivity ''nu'',
     from_key ''Prandt'' Dimensionless ''Prandt'',
     from_key ''alfa'' Diffusivity ''alfa'',
     from_key ''joule'' TemperaturePressure ''joule'',
     from_key ''deltat'' EnthalpyPressure ''deltat'',
     from_key ''gamma'' Dimensionless ''gamma'',
     from_key ''alfap'' Dimensionless ''alfap'',
     from_key ''betap'' Dimensionless ''betap'',
     try_except TypeError
       (run [from_key_each ''fi'' Dimensionless ''fi'',
             from_key_each ''f'' Pressure ''f''])
       (run [from_key_single ''fi'' Dimensionless ''fi'',
             from_key_single ''f'' Pressure ''f'']),
     from_key ''Q'' VolFlow ''volFlow'',
     from_key ''caudalmasico'' MassFlow ''massFlow'',
     from_key ''caudalmolar'' MolarFlow ''molarFlow'',
     from_key_each ''fraccion'' Dimensionless ''fraction'',
     from_key_each ''fraccion_masica'' Dimensionless ''massFraction'',
     from_key_each ''caudalunitariomasico'' MassFlow ''massUnitFlow'',
     from_key_each ''caudalunitariomolar'' MolarFlow ''molarUnitFlow'',
     from_ratio ''rhoM'' MolarDensity ''rho'' ''M'',
     from_ratio ''hM'' MolarEnthalpy ''h'' ''M'',
     from_ratio ''sM'' MolarSpecificHeat ''s'' ''M'',
     from_ratio ''uM'' MolarEnthalpy ''u'' ''M'',
     from_ratio ''aM'' MolarEnthalpy ''a'' ''M'',
     from_ratio ''gM'' MolarEnthalpy ''g'' ''M'',
     from_ratio ''cvM'' MolarSpecificHeat ''cv'' ''M'',
     from_ratio ''cpM'' MolarSpecificHeat ''cp'' ''M'']"

text \<open>
  Those of \<open>ThermoWater\<close>, \<open>ThermoAdvanced\<close> and \<open>ThermoRefProp\<close>, after the call of
  the parent's method.
\<close>

definition ThermoWater_read :: "statement list" where
  "ThermoWater_read =
    [
     from_key ''epsilon'' Dimensionless ''epsilon'',
     from_key ''n'' Dimensionless ''n'']"

definition ThermoAdvanced_read :: "statement list" where
  "ThermoAdvanced_read =
    [
     from_key ''betas'' TemperaturePressure ''betas'',
     from_key ''Gruneisen'' Dimensionless ''Gruneisen'',
     try_except KeyError
       (run [from_key ''virialB'' SpecificVolume ''virialB'',
             from_key ''virialC'' SpecificVolume_square ''virialC''])
       (run [from_zero ''virialB'' SpecificVolume,
             from_zero ''virialC'' SpecificVolume_square]),
     from_key ''dpdT_rho'' PressureTemperature ''dpdT_rho'',
     from_key ''dpdrho_T'' PressureDensity ''dpdrho_T'',
     from_key ''drhodT_P'' DensityTemperature ''drhodT_P'',
     from_key ''drhodP_T'' DensityPressure ''drhodP_T'',
     from_key ''dhdT_rho'' SpecificHeat ''dhdT_rho'',
     from_key ''dhdP_T'' EnthalpyPressure ''dhdP_T'',
     from_key ''dhdT_P'' SpecificHeat ''dhdT_P'',
     from_key ''dhdrho_T'' EnthalpyDensity ''dhdrho_T'',
     from_key ''dhdP_rho'' EnthalpyPressure ''dhdP_rho'',
     from_key ''kt'' Dimensionless ''kt'',
     from_key ''ks'' InvPressure ''ks'',
     from_key ''Ks'' Pressure ''Ks'',
     from_key ''Kt'' Pressure ''Kt'',
     from_key ''IntP'' Pressure ''IntP'',
     try_except KeyError
       (run [from_key ''invT'' InvTemperature ''invT''])
       (run [from_zero ''invT'' InvTemperature]),
     from_key ''hInput'' Enthalpy ''hInput'',
     from_key ''epsilon'' Dimensionless ''epsilon'']"

definition ThermoRefProp_read :: "statement list" where
  "ThermoRefProp_read =
    [
     from_key ''virialD'' Dimensionless ''virialD'',
     from_key ''virialBa'' SpecificVolume ''virialBa'',
     from_key ''virialCa'' SpecificVolume_square ''virialCa'',
     from_key ''dCdt'' Dimensionless ''dCdt'',
     from_key ''dCdt2'' Dimensionless ''dCdt2'',
     from_key ''dBdt'' Dimensionless ''dBdt'']"

text \<open>\<open>readStatefromJSON(self, fluid)\<close>; an empty dict is falsy.\<close>

definition Thermo_readStatefromJSON :: "thermo \<Rightarrow> dict \<Rightarrow> pyerror + thermo" where
  "Thermo_readStatefromJSON self fluid =
    (if fluid \<noteq> [] then run Thermo_read fluid (self\<lparr>thermo_bool := True\<rparr>) else Inr self)"

definition read_more :: "statement list \<Rightarrow> thermo \<Rightarrow> dict \<Rightarrow> pyerror + thermo" where
  "read_more sts self fluid = (if fluid \<noteq> [] then run sts fluid self else Inr self)"

definition ThermoWater_readStatefromJSON :: "thermo \<Rightarrow> dict \<Rightarrow> pyerror + thermo" where
  "ThermoWater_readStatefromJSON self fluid =
    andthen (Thermo_readStatefromJSON self fluid)
      (\<lambda>self. read_more ThermoWater_read self fluid)"

definition ThermoAdvanced_readStatefromJSON :: "thermo \<Rightarrow> dict \<Rightarrow> pyerror + thermo" where
  "ThermoAdvanced_readStatefromJSON self fluid =
    andthen (Thermo_readStatefromJSON self fluid)
      (\<lambda>self. read_more ThermoAdvanced_read self fluid)"

definition ThermoRefProp_readStatefromJSON :: "thermo \<Rightarrow> dict \<Rightarrow> pyerror + thermo" where
  "ThermoRefProp_readStatefromJSON self fluid =
    andthen (ThermoAdvanced_readStatefromJSON self fluid)
      (\<lambda>self. read_more ThermoRefProp_read self fluid)"

fun readStatefromJSON :: "thermo_class \<Rightarrow> thermo \<Rightarrow> dict \<Rightarrow> pyerror + thermo" where
  "readStatefromJSON Thermo = Thermo_readStatefromJSON"
| "readStatefromJSON ThermoWater = ThermoWater_readStatefromJSON"
| "readStatefromJSON ThermoAdvanced = ThermoAdvanced_readStatefromJSON"
| "readStatefromJSON ThermoRefProp = ThermoRefProp_readStatefromJSON"

subsection \<open>What a restorable dict holds\<close>

text \<open>
  An entry is a number when it is a float or a value of a unit class, a list of
  numbers when it is a list of such; \<open>num_at\<close> is the magnitude of a number entry (0
  when the key is absent), \<open>listed U\<close> the list of \<open>U\<close> values made from a list of
  numbers or from one number.
\<close>

definition magnitude :: "pyval \<Rightarrow> real" where
  "magnitude x = (case x of Float r \<Rightarrow> r | Quantity u r \<Rightarrow> r | PyList xs \<Rightarrow> 0)"

definition is_number :: "pyval option \<Rightarrow> bool" where
  "is_number x =
    (case x of Some (Float r) \<Rightarrow> True | Some (Quantity u r) \<Rightarrow> True
             | Some (PyList xs) \<Rightarrow> False | None \<Rightarrow> False)"

definition is_number_list :: "pyval option \<Rightarrow> bool" where
  "is_number_list x =
    (case x of Some (PyList xs) \<Rightarrow> list_all (\<lambda>y. is_number (Some y)) xs
             | Some (Float r) \<Rightarrow> False | Some (Quantity u r) \<Rightarrow> False | None \<Rightarrow> False)"

definition num_at :: "dict \<Rightarrow> string \<Rightarrow> real" where
  "num_at fluid k = (case map_of fluid k of Some x \<Rightarrow> magnitude x | None \<Rightarrow> 0)"

definition listed :: "unidades \<Rightarrow> pyval option \<Rightarrow> pyval" where
  "listed u x =
    (case x of
       Some (PyList xs) \<Rightarrow> PyList (map (\<lambda>y. Quantity u (magnitude y)) xs)
     | Some y \<Rightarrow> PyList [Quantity u (magnitude y)]
     | None \<Rightarrow> PyList [])"

text \<open>
  The keys \<open>readStatefromJSON\<close> of \<open>Thermo\<close> and of \<open>ThermoAdvanced\<close> require, by the
  kind of entry, and the four optional keys.
\<close>

definition Thermo_number_keys :: "string list" where
  "Thermo_number_keys =
    [''M'', ''v'', ''h'', ''s'', ''u'', ''a'', ''g'', ''cv'', ''cp'', ''cp/cv'', ''w'',
     ''Z'', ''alfav'', ''kappa'', ''mu'', ''k'', ''nu'', ''Prandt'', ''alfa'', ''joule'',
     ''deltat'', ''gamma'', ''alfap'', ''betap'', ''volFlow'', ''massFlow'', ''molarFlow'']"

definition Thermo_list_keys :: "string list" where
  "Thermo_list_keys = [''fraction'', ''massFraction'', ''massUnitFlow'', ''molarUnitFlow'']"

definition ThermoAdvanced_number_keys :: "string list" where
  "ThermoAdvanced_number_keys =
    [''betas'', ''Gruneisen'', ''dpdT_rho'', ''dpdrho_T'', ''drhodT_P'', ''drhodP_T'',
     ''dhdT_rho'', ''dhdP_T'', ''dhdT_P'', ''dhdrho_T'', ''dhdP_rho'', ''kt'', ''ks'',
     ''Ks'', ''Kt'', ''IntP'', ''hInput'', ''epsilon'']"

definition optional_keys :: "string list" where
  "optional_keys = [''kappas'', ''virialB'', ''virialC'', ''invT'']"

text \<open>
  A dict that holds every required key with an entry of its kind (\<open>fi\<close> and \<open>f\<close> both
  lists of numbers or both numbers), where an optional key is absent or a number, and
  whose \<open>v\<close> and \<open>M\<close> are not zero (\<open>readStatefromJSON\<close> divides by both).
\<close>

definition restorable :: "dict \<Rightarrow> bool" where
  "restorable fluid \<longleftrightarrow>
     list_all (\<lambda>k. is_number (map_of fluid k)) Thermo_number_keys
   \<and> list_all (\<lambda>k. is_number (map_of fluid k)) ThermoAdvanced_number_keys
   \<and> list_all (\<lambda>k. is_number_list (map_of fluid k)) Thermo_list_keys
   \<and> list_all (\<lambda>k. map_of fluid k = None \<or> is_number (map_of fluid k)) optional_keys
   \<and> (is_number_list (map_of fluid ''fi'') \<and> is_number_list (map_of fluid ''f'')
        \<or> is_number (map_of fluid ''fi'') \<and> is_number (map_of fluid ''f''))
   \<and> num_at fluid ''v'' \<noteq> 0
   \<and> num_at fluid ''M'' \<noteq> 0"


subsection \<open>Example data\<close>

text \<open>
  A solved phase of a \<open>ThermoAdvanced\<close> instance: \<open>_bool\<close> is true and every
  attribute \<open>writeStatetoJSON\<close> reads is set, each catalog property to a value of the
  unit class the catalog declares for it.
\<close>

definition solved_example :: thermo where
  "solved_example = \<lparr>thermo_bool = True, attrs =
    [
     (''M'', Quantity Dimensionless 18),
     (''v'', Quantity SpecificVolume (1 / 1000)),
     (''h'', Quantity Enthalpy 4),
     (''s'', Quantity SpecificHeat 5),
     (''u'', Quantity Enthalpy 6),
     (''a'', Quantity Enthalpy 7),
     (''g'', Quantity Enthalpy 8),
     (''cv'', Quantity SpecificHeat 9),
     (''cp'', Quantity SpecificHeat 10),
     (''cp_cv'', Quantity Dimensionless 11),
     (''w'', Quantity Speed 12),
     (''Z'', Quantity Dimensionless 13),
     (''alfav'', Quantity InvTemperature 14),
     (''kappa'', Quantity InvPressure 15),
     (''kappas'', Quantity InvPressure 16),
     (''mu'', Quantity Viscosity 17),
     (''k'', Quantity ThermalConductivity 18),
     (''nu'', Quantity Diffusivity 19),
     (''Prandt'', Quantity Dimensionless 20),
     (''alfa'', Quantity Diffusivity 21),
     (''joule'', Quantity TemperaturePressure 22),
     (''deltat'', Quantity EnthalpyPressure 23),
     (''gamma'', Quantity Dimensionless 24),
     (''alfap'', Quantity InvTemperature (4 / 1000)),
     (''betap'', Quantity Density 250),
     (''fi'', PyList [Quantity Dimensionless 1]),
     (''f'', PyList [Quantity Pressure 101325]),
     (''Q'', Quantity VolFlow 29),
     (''caudalmasico'', Quantity MassFlow 30),
     (''caudalmolar'', Quantity MolarFlow 31),
     (''fraccion'', PyList [Quantity Dimensionless 1]),
     (''fraccion_masica'', PyList [Quantity Dimensionless 1]),
     (''caudalunitariomasico'', PyList [Quantity MassFlow 1]),
     (''caudalunitariomolar'', PyList [Quantity MolarFlow 1]),
     (''betas'', Quantity TemperaturePressure 36),
     (''Gruneisen'', Quantity Dimensionless 37),
     (''virialB'', Quantity SpecificVolume 38),
     (''virialC'', Quantity SpecificVolume_square 39),
     (''dpdT_rho'', Quantity PressureTemperature 40),
     (''dpdrho_T'', Quantity PressureDensity 41),
     (''drhodT_P'', Quantity DensityTemperature 42),
     (''drhodP_T'', Quantity DensityPressure 43),
     (''dhdT_rho'', Quantity SpecificHeat 44),
     (''dhdP_T'', Quantity EnthalpyPressure 45),
     (''dhdT_P'', Quantity SpecificHeat 46),
     (''dhdrho_T'', Quantity EnthalpyDensity 47),
     (''dhdP_rho'', Quantity EnthalpyPressure 48),
     (''kt'', Quantity Dimensionless 49),
     (''ks'', Quantity Dimensionless (3 / 2)),
     (''Ks'', Quantity Pressure 51),
     (''Kt'', Quantity Pressure 52),
     (''IntP'', Quantity Pressure 53),
     (''invT'', Quantity InvTemperature 54),
     (''hInput'', Quantity Enthalpy 55),
     (''epsilon'', Quantity Dimensionless 56)]\<rparr>"

text \<open>A new instance, as the class attributes leave it.\<close>

definition fresh :: thermo where
  "fresh = \<lparr>thermo_bool = False, attrs = []\<rparr>"


text \<open>Writing a phase of \<open>self\<close> and reading the dict written into \<open>target\<close>.\<close>

definition roundtrip :: "thermo_class \<Rightarrow> thermo \<Rightarrow> thermo \<Rightarrow> pyerror + thermo" where
  "roundtrip cls self target =
    andthen (writeStatetoJSON cls self [] ''fase'') (\<lambda>state.
    andthen (getitem state ''fase'') (\<lambda>fluid.
      readStatefromJSON cls target fluid))"


subsection \<open>What readStatefromJSON is expected to build\<close>

text \<open>
  The single-valued attributes that \<open>readStatefromJSON\<close> builds from a key of the
  dict, as (attribute, unit class, key), for \<open>Thermo\<close> and for the statements
  \<open>ThermoAdvanced\<close> adds (\<open>virialB\<close> and \<open>virialC\<close>, which share one \<open>try\<close>, apart),
  and the list-valued ones.
\<close>

definition Thermo_rebuilt :: "(string \<times> unidades \<times> string) list" where
  "Thermo_rebuilt =
    [
     (''M'', Dimensionless, ''M''), (''v'', SpecificVolume, ''v''),
     (''h'', Enthalpy, ''h''), (''s'', SpecificHeat, ''s''), (''u'', Enthalpy, ''u''),
     (''a'', Enthalpy, ''a''), (''g'', Enthalpy, ''g''),
     (''cv'', SpecificHeat, ''cv''), (''cp'', SpecificHeat, ''cp''),
     (''cp_cv'', Dimensionless, ''cp/cv''), (''w'', Speed, ''w''),
     (''Z'', Dimensionless, ''Z''), (''alfav'', InvTemperature, ''alfav''),
     (''kappa'', InvPressure, ''kappa''), (''kappas'', InvPressure, ''kappas''),
     (''mu'', Viscosity, ''mu''), (''k'', ThermalConductivity, ''k''),
     (''nu'', Diffusivity, ''nu''), (''Prandt'', Dimensionless, ''Prandt''),
     (''alfa'', Diffusivity, ''alfa''), (''joule'', TemperaturePressure, ''joule''),
     (''deltat'', EnthalpyPressure, ''deltat''), (''gamma'', Dimensionless, ''gamma''),
     (''alfap'', Dimensionless, ''alfap''), (''betap'', Dimensionless, ''betap''),
     (''Q'', VolFlow, ''volFlow''), (''caudalmasico'', MassFlow, ''massFlow''),
     (''caudalmolar'', MolarFlow, ''molarFlow'')]"

definition ThermoAdvanced_rebuilt :: "(string \<times> unidades \<times> string) list" where
  "ThermoAdvanced_rebuilt =
    [
     (''betas'', TemperaturePressure, ''betas''),
     (''Gruneisen'', Dimensionless, ''Gruneisen''),
     (''dpdT_rho'', PressureTemperature, ''dpdT_rho''),
     (''dpdrho_T'', PressureDensity, ''dpdrho_T''),
     (''drhodT_P'', DensityTemperature, ''drhodT_P''),
     (''drhodP_T'', DensityPressure, ''drhodP_T''),
     (''dhdT_rho'', SpecificHeat, ''dhdT_rho''),
     (''dhdP_T'', EnthalpyPressure, ''dhdP_T''),
     (''dhdT_P'', SpecificHeat, ''dhdT_P''),
     (''dhdrho_T'', EnthalpyDensity, ''dhdrho_T''),
     (''dhdP_rho'', EnthalpyPressure, ''dhdP_rho''), (''kt'', Dimensionless, ''kt''),
     (''ks'', InvPressure, ''ks''), (''Ks'', Pressure, ''Ks''),
     (''Kt'', Pressure, ''Kt''), (''IntP'', Pressure, ''IntP''),
     (''invT'', InvTemperature, ''invT''), (''hInput'', Enthalpy, ''hInput''),
     (''epsilon'', Dimensionless, ''epsilon'')]"

definition Thermo_rebuilt_lists :: "(string \<times> unidades \<times> string) list" where
  "Thermo_rebuilt_lists =
    [
     (''fraccion'', Dimensionless, ''fraction''),
     (''fraccion_masica'', Dimensionless, ''massFraction''),
     (''caudalunitariomasico'', MassFlow, ''massUnitFlow''),
     (''caudalunitariomolar'', MolarFlow, ''molarUnitFlow'')]"

text \<open>
  A solved phase of a \<open>ThermoAdvanced\<close> instance: \<open>_bool\<close> is true, every attribute
  \<open>writeStatetoJSON\<close> reads is set to an entry of its kind, and \<open>v\<close> and \<open>M\<close> are not
  zero.
\<close>

definition solved :: "thermo \<Rightarrow> bool" where
  "solved self \<longleftrightarrow>
     thermo_bool self
   \<and> list_all (\<lambda>(a, u, k). is_number (map_of (attrs self) a)) Thermo_rebuilt
   \<and> list_all (\<lambda>(a, u, k). is_number (map_of (attrs self) a)) ThermoAdvanced_rebuilt
   \<and> is_number (map_of (attrs self) ''virialB'')
   \<and> is_number (map_of (attrs self) ''virialC'')
   \<and> list_all (\<lambda>(a, u, k). is_number_list (map_of (attrs self) a)) Thermo_rebuilt_lists
   \<and> (is_number_list (map_of (attrs self) ''fi'') \<and> is_number_list (map_of (attrs self) ''f'')
        \<or> is_number (map_of (attrs self) ''fi'') \<and> is_number (map_of (attrs self) ''f''))
   \<and> num_at (attrs self) ''v'' \<noteq> 0
   \<and> num_at (attrs self) ''M'' \<noteq> 0"

section \<open>Claims about the derivative operator\<close>

lemma getitem_dP:
  "k \<in> set basevars \<Longrightarrow> getitem (dP self fase) k = Inr (entry (dP self fase) k)"
  by (auto simp: basevars_def getitem_def entry_def dP_def)

lemma getitem_dT:
  "k \<in> set basevars \<Longrightarrow> getitem (dT self fase) k = Inr (entry (dT self fase) k)"
  by (auto simp: basevars_def getitem_def entry_def dT_def)

lemma derivative_basevars:
  assumes "self_T self \<noteq> 0" "z \<in> set basevars" "x \<in> set basevars" "y \<in> set basevars"
  shows "derivative self z x y fase =
    (if entry (dP self fase) x * entry (dT self fase) y
        - entry (dT self fase) x * entry (dP self fase) y = 0
     then Inl ZeroDivisionError
     else Inr ((entry (dP self fase) z * entry (dT self fase) y
                - entry (dT self fase) z * entry (dP self fase) y)
             / (entry (dP self fase) x * entry (dT self fase) y
                - entry (dT self fase) x * entry (dP self fase) y)))"
  using assms by (simp add: derivative_def andthen_def getitem_dP getitem_dT)

text \<open>
  At \<open>self.T = 0\<close> every call raises while the dict \<open>dT\<close> is built; a name that is
  no key of the tables raises \<open>KeyError\<close>.
\<close>

lemma derivative_zero_temperature:
  "self_T self = 0 \<Longrightarrow> derivative self z x y fase = Inl ZeroDivisionError"
  by (simp add: derivative_def)

lemma derivative_unknown_variable:
  "self_T self \<noteq> 0 \<Longrightarrow> z \<notin> set basevars \<Longrightarrow> derivative self z x y fase = Inl KeyError"
  by (simp add: derivative_def andthen_def getitem_def dP_def basevars_def)

text \<open>
  C1.  At a state whose tables can be built (\<open>self.T \<noteq> 0\<close>: the entry \<open>"s"\<close> of
  \<open>dT\<close> divides by it) and for every \<open>z\<close> among the eight base variables:
  for all \<open>x\<close>, \<open>y\<close> among them with \<open>x \<noteq> y\<close> and a nonzero denominator,
  \<open>derivative(z, x, y, fase)\<close> returns the ratio
  \<open>(dP[z]*dT[y] - dT[z]*dP[y]) / (dP[x]*dT[y] - dT[x]*dP[y])\<close> of the two tables;
  \<open>derivative(z, "P", "T")\<close> is the entry of \<open>z\<close> in the constant-temperature table
  \<open>dP\<close>, \<open>derivative(z, "T", "P")\<close> its entry in the constant-pressure table \<open>dT\<close>;
  these entries are \<open>v(1 - T alfav)\<close> and \<open>v\<close> for \<open>h\<close> and \<open>g\<close> in \<open>dP\<close>, and
  \<open>cp\<close>, \<open>cp/T\<close>, \<open>-s\<close> for \<open>h\<close>, \<open>s\<close>, \<open>g\<close> in \<open>dT\<close>.
\<close>

theorem derivative_jacobian_ratio:
  fixes self :: thermo_point and fase :: fase
  defines "cT \<equiv> entry (dP self fase)" and "cP \<equiv> entry (dT self fase)"
  assumes "self_T self \<noteq> 0" and "z \<in> set basevars"
  shows "(\<forall>x y. x \<in> set basevars \<and> y \<in> set basevars \<and> x \<noteq> y
              \<and> cT x * cP y - cP x * cT y \<noteq> 0 \<longrightarrow>
            derivative self z x y fase =
              Inr ((cT z * cP y - cP z * cT y) / (cT x * cP y - cP x * cT y)))
       \<and> derivative self z ''P'' ''T'' fase = Inr (cT z)
       \<and> derivative self z ''T'' ''P'' fase = Inr (cP z)
       \<and> cT ''h'' = fase_v fase * (1 - self_T self * fase_alfav fase)
       \<and> cT ''g'' = fase_v fase
       \<and> cP ''h'' = fase_cp fase
       \<and> cP ''s'' = fase_cp fase / self_T self
       \<and> cP ''g'' = - fase_s fase"
proof -
  have PT: "''P'' \<in> set basevars" "''T'' \<in> set basevars"
    by (simp_all add: basevars_def)
  have eP: "cT ''P'' = 1" "cT ''T'' = 0" "cP ''P'' = 0" "cP ''T'' = 1"
    by (simp_all add: cT_def cP_def entry_def dP_def dT_def)
  have general: "\<forall>x y. x \<in> set basevars \<and> y \<in> set basevars \<and> x \<noteq> y
              \<and> cT x * cP y - cP x * cT y \<noteq> 0 \<longrightarrow>
            derivative self z x y fase =
              Inr ((cT z * cP y - cP z * cT y) / (cT x * cP y - cP x * cT y))"
    using assms(3,4) by (simp add: derivative_basevars cT_def cP_def)
  have atT: "derivative self z ''P'' ''T'' fase = Inr (cT z)"
    using derivative_basevars [OF assms(3,4) PT(1) PT(2), of fase] eP
    by (simp add: cT_def cP_def)
  have atP: "derivative self z ''T'' ''P'' fase = Inr (cP z)"
    using derivative_basevars [OF assms(3,4) PT(2) PT(1), of fase] eP
    by (simp add: cT_def cP_def)
  have entries: "cT ''h'' = fase_v fase * (1 - self_T self * fase_alfav fase)"
    "cT ''g'' = fase_v fase" "cP ''h'' = fase_cp fase"
    "cP ''s'' = fase_cp fase / self_T self" "cP ''g'' = - fase_s fase"
    by (simp_all add: cT_def cP_def entry_def dP_def dT_def)
  from general atT atP entries show ?thesis by simp
qed

theorem derivative_jacobian_ratio_witness:
  "self_T \<lparr>self_P = 2, self_T = 3\<rparr> \<noteq> 0
   \<and> ''h'' \<in> set basevars \<and> ''s'' \<in> set basevars \<and> ''v'' \<in> set basevars
   \<and> ''s'' \<noteq> ''v''
   \<and> entry (dP \<lparr>self_P = 2, self_T = 3\<rparr>
        \<lparr>fase_v = 1, fase_alfav = 1/2, fase_kappa = 1/4, fase_cp = 5, fase_s = 7\<rparr>) ''s''
      * entry (dT \<lparr>self_P = 2, self_T = 3\<rparr>
        \<lparr>fase_v = 1, fase_alfav = 1/2, fase_kappa = 1/4, fase_cp = 5, fase_s = 7\<rparr>) ''v''
      - entry (dT \<lparr>self_P = 2, self_T = 3\<rparr>
        \<lparr>fase_v = 1, fase_alfav = 1/2, fase_kappa = 1/4, fase_cp = 5, fase_s = 7\<rparr>) ''s''
      * entry (dP \<lparr>self_P = 2, self_T = 3\<rparr>
        \<lparr>fase_v = 1, fase_alfav = 1/2, fase_kappa = 1/4, fase_cp = 5, fase_s = 7\<rparr>) ''v''
      = 1 / 6
   \<and> derivative \<lparr>self_P = 2, self_T = 3\<rparr> ''h'' ''s'' ''v''
        \<lparr>fase_v = 1, fase_alfav = 1/2, fase_kappa = 1/4, fase_cp = 5, fase_s = 7\<rparr> = Inr 6
   \<and> derivative \<lparr>self_P = 2, self_T = 3\<rparr> ''h'' ''P'' ''T''
        \<lparr>fase_v = 1, fase_alfav = 1/2, fase_kappa = 1/4, fase_cp = 5, fase_s = 7\<rparr> = Inr (- 1/2)
   \<and> derivative \<lparr>self_P = 2, self_T = 3\<rparr> ''h'' ''T'' ''P''
        \<lparr>fase_v = 1, fase_alfav = 1/2, fase_kappa = 1/4, fase_cp = 5, fase_s = 7\<rparr> = Inr 5"
  using derivative_jacobian_ratio [of "\<lparr>self_P = 2, self_T = 3\<rparr>" "''h''"
      "\<lparr>fase_v = 1, fase_alfav = 1/2, fase_kappa = 1/4, fase_cp = 5, fase_s = 7\<rparr>"]
  by (simp add: basevars_def entry_def dP_def dT_def)

text \<open>
  C8.  For every \<open>z\<close> and every \<open>x = y\<close> among the eight base variables the denominator
  \<open>dP[x]*dT[x] - dT[x]*dP[x]\<close> is zero, and \<open>derivative(z, x, x, fase)\<close> raises
  \<open>ZeroDivisionError\<close> at every state: nothing in \<open>derivative\<close> checks \<open>x \<noteq> y\<close>.
\<close>

theorem derivative_same_variable_undefined:
  assumes "z \<in> set basevars" and "x \<in> set basevars"
  shows "entry (dP self fase) x * entry (dT self fase) x
           - entry (dT self fase) x * entry (dP self fase) x = 0
       \<and> derivative self z x x fase = Inl ZeroDivisionError"
proof (cases "self_T self = 0")
  case True
  then show ?thesis by (simp add: derivative_def)
next
  case False
  then show ?thesis using assms by (simp add: derivative_basevars)
qed

theorem derivative_same_variable_undefined_witness:
  "''h'' \<in> set basevars \<and> ''v'' \<in> set basevars
   \<and> derivative \<lparr>self_P = 2, self_T = 3\<rparr> ''h'' ''v'' ''v''
        \<lparr>fase_v = 1, fase_alfav = 1/2, fase_kappa = 1/4, fase_cp = 5, fase_s = 7\<rparr>
       = Inl ZeroDivisionError"
  using derivative_same_variable_undefined [of "''h''" "''v''" "\<lparr>self_P = 2, self_T = 3\<rparr>"
      "\<lparr>fase_v = 1, fase_alfav = 1/2, fase_kappa = 1/4, fase_cp = 5, fase_s = 7\<rparr>"]
  by (simp add: basevars_def)

text \<open>
  C2.  With \<open>J a b = dP[a]*dT[b] - dT[a]*dP[b]\<close>: for \<open>z\<close>, \<open>x\<close>, \<open>y\<close> among the eight
  base variables, \<open>x \<noteq> y\<close> and both denominators \<open>J x y\<close>, \<open>J z y\<close> nonzero, both calls
  return and \<open>derivative(z, x, y) * derivative(x, z, y) = 1\<close>; for pairwise distinct
  \<open>z\<close>, \<open>x\<close>, \<open>y\<close> with every denominator involved nonzero (\<open>J x y\<close>, \<open>J y x\<close>,
  \<open>J y z\<close>, and \<open>J x z\<close>, which makes the divisor \<open>derivative(x, y, z)\<close> nonzero), all
  three calls return and \<open>derivative(z, x, y) = - derivative(z, y, x) / derivative(x, y, z)\<close>.
\<close>

theorem derivative_reciprocal_triple_product:
  fixes self :: thermo_point and fase :: fase
  defines "J \<equiv> \<lambda>a b. entry (dP self fase) a * entry (dT self fase) b
                     - entry (dT self fase) a * entry (dP self fase) b"
  assumes "self_T self \<noteq> 0"
    and "z \<in> set basevars" and "x \<in> set basevars" and "y \<in> set basevars"
  shows "(x \<noteq> y \<and> J x y \<noteq> 0 \<and> J z y \<noteq> 0 \<longrightarrow>
            (\<exists>a b. derivative self z x y fase = Inr a
                 \<and> derivative self x z y fase = Inr b \<and> a * b = 1))
       \<and> (z \<noteq> x \<and> x \<noteq> y \<and> z \<noteq> y
            \<and> J x y \<noteq> 0 \<and> J y x \<noteq> 0 \<and> J y z \<noteq> 0 \<and> J x z \<noteq> 0 \<longrightarrow>
            (\<exists>a b c. derivative self z x y fase = Inr a
                 \<and> derivative self z y x fase = Inr b
                 \<and> derivative self x y z fase = Inr c
                 \<and> c \<noteq> 0 \<and> a = - b / c))"
proof -
  have d: "\<And>p q r. p \<in> set basevars \<Longrightarrow> q \<in> set basevars \<Longrightarrow> r \<in> set basevars \<Longrightarrow>
      J q r \<noteq> 0 \<Longrightarrow> derivative self p q r fase = Inr (J p r / J q r)"
    using assms(2) by (simp add: derivative_basevars J_def)
  have anti: "\<And>p q. J p q = - J q p"
    by (simp add: J_def)
  have recip: "x \<noteq> y \<and> J x y \<noteq> 0 \<and> J z y \<noteq> 0 \<longrightarrow>
            (\<exists>a b. derivative self z x y fase = Inr a
                 \<and> derivative self x z y fase = Inr b \<and> a * b = 1)"
  proof (intro impI, elim conjE)
    assume n: "J x y \<noteq> 0" "J z y \<noteq> 0"
    have "derivative self z x y fase = Inr (J z y / J x y)"
      using d assms(3-5) n by blast
    moreover have "derivative self x z y fase = Inr (J x y / J z y)"
      using d assms(3-5) n by blast
    moreover have "(J z y / J x y) * (J x y / J z y) = 1"
      using n by simp
    ultimately show "\<exists>a b. derivative self z x y fase = Inr a
                 \<and> derivative self x z y fase = Inr b \<and> a * b = 1"
      by blast
  qed
  have triple: "z \<noteq> x \<and> x \<noteq> y \<and> z \<noteq> y
            \<and> J x y \<noteq> 0 \<and> J y x \<noteq> 0 \<and> J y z \<noteq> 0 \<and> J x z \<noteq> 0 \<longrightarrow>
            (\<exists>a b c. derivative self z x y fase = Inr a
                 \<and> derivative self z y x fase = Inr b
                 \<and> derivative self x y z fase = Inr c
                 \<and> c \<noteq> 0 \<and> a = - b / c)"
  proof (intro impI, elim conjE)
    assume n: "J x y \<noteq> 0" "J y x \<noteq> 0" "J y z \<noteq> 0" "J x z \<noteq> 0"
    have a: "derivative self z x y fase = Inr (J z y / J x y)"
      using d assms(3-5) n by blast
    have b: "derivative self z y x fase = Inr (J z x / J y x)"
      using d assms(3-5) n by blast
    have c: "derivative self x y z fase = Inr (J x z / J y z)"
      using d assms(3-5) n by blast
    have c0: "J x z / J y z \<noteq> 0"
      using n by simp
    have zx: "J z x = - J x z" and yx: "J y x = - J x y" and zy: "J z y = - J y z"
      by (rule anti)+
    have "J z y / J x y = - (J z x / J y x) / (J x z / J y z)"
      using n by (simp add: zx yx zy field_simps)
    with a b c c0 show "\<exists>a b c. derivative self z x y fase = Inr a
                 \<and> derivative self z y x fase = Inr b
                 \<and> derivative self x y z fase = Inr c
                 \<and> c \<noteq> 0 \<and> a = - b / c"
      by blast
  qed
  from recip triple show ?thesis by blast
qed

theorem derivative_reciprocal_triple_product_witness:
  "self_T \<lparr>self_P = 2, self_T = 3\<rparr> \<noteq> 0
   \<and> ''h'' \<in> set basevars \<and> ''s'' \<in> set basevars \<and> ''v'' \<in> set basevars
   \<and> ''h'' \<noteq> ''s'' \<and> ''s'' \<noteq> ''v'' \<and> ''h'' \<noteq> ''v''
   \<and> derivative \<lparr>self_P = 2, self_T = 3\<rparr> ''h'' ''s'' ''v''
        \<lparr>fase_v = 1, fase_alfav = 1/2, fase_kappa = 1/4, fase_cp = 5, fase_s = 7\<rparr> = Inr 6
   \<and> derivative \<lparr>self_P = 2, self_T = 3\<rparr> ''s'' ''h'' ''v''
        \<lparr>fase_v = 1, fase_alfav = 1/2, fase_kappa = 1/4, fase_cp = 5, fase_s = 7\<rparr> = Inr (1/6)
   \<and> derivative \<lparr>self_P = 2, self_T = 3\<rparr> ''h'' ''v'' ''s''
        \<lparr>fase_v = 1, fase_alfav = 1/2, fase_kappa = 1/4, fase_cp = 5, fase_s = 7\<rparr> = Inr (- 10)
   \<and> derivative \<lparr>self_P = 2, self_T = 3\<rparr> ''s'' ''v'' ''h''
        \<lparr>fase_v = 1, fase_alfav = 1/2, fase_kappa = 1/4, fase_cp = 5, fase_s = 7\<rparr> = Inr (5/3)
   \<and> (\<exists>a b. derivative \<lparr>self_P = 2, self_T = 3\<rparr> ''h'' ''s'' ''v''
        \<lparr>fase_v = 1, fase_alfav = 1/2, fase_kappa = 1/4, fase_cp = 5, fase_s = 7\<rparr> = Inr a
      \<and> derivative \<lparr>self_P = 2, self_T = 3\<rparr> ''s'' ''h'' ''v''
        \<lparr>fase_v = 1, fase_alfav = 1/2, fase_kappa = 1/4, fase_cp = 5, fase_s = 7\<rparr> = Inr b
      \<and> a * b = 1)"
  using derivative_reciprocal_triple_product [of "\<lparr>self_P = 2, self_T = 3\<rparr>"
      "''h''" "''s''" "''v''"
      "\<lparr>fase_v = 1, fase_alfav = 1/2, fase_kappa = 1/4, fase_cp = 5, fase_s = 7\<rparr>"]
  by (simp add: basevars_def entry_def dP_def dT_def derivative_def andthen_def getitem_def)

section \<open>Claims about the property catalogs\<close>

lemma propertiesPhase_loop_filter:
  "propertiesPhase_loop single tot acc = acc @ filter (\<lambda>p. p \<notin> set single) tot"
  by (induction tot arbitrary: acc) simp_all


lemma propertiesPhase_filter:
  "propertiesPhase cls = filter (\<lambda>p. p \<notin> set (propertiesGlobal cls)) (propertiesKey cls)"
  by (simp add: propertiesPhase_def propertiesPhase_loop_filter)

lemma propertiesGlobal_in_catalog_Thermo:
  "set (propertiesGlobal Thermo) \<subseteq> set (propertiesKey Thermo)"
  by code_simp

lemma propertiesGlobal_in_catalog_ThermoWater:
  "set (propertiesGlobal ThermoWater) \<subseteq> set (propertiesKey ThermoWater)"
  by code_simp

lemma propertiesGlobal_in_catalog_ThermoAdvanced:
  "set (propertiesGlobal ThermoAdvanced) \<subseteq> set (propertiesKey ThermoAdvanced)"
  by code_simp

lemma propertiesGlobal_in_catalog_ThermoRefProp:
  "set (propertiesGlobal ThermoRefProp) \<subseteq> set (propertiesKey ThermoRefProp)"
  by code_simp

lemma propertiesGlobal_in_catalog:
  "set (propertiesGlobal cls) \<subseteq> set (propertiesKey cls)"
proof (cases cls)
  case Thermo
  then show ?thesis using propertiesGlobal_in_catalog_Thermo by simp
next
  case ThermoWater
  then show ?thesis using propertiesGlobal_in_catalog_ThermoWater by simp
next
  case ThermoAdvanced
  then show ?thesis using propertiesGlobal_in_catalog_ThermoAdvanced by simp
next
  case ThermoRefProp
  then show ?thesis using propertiesGlobal_in_catalog_ThermoRefProp by simp
qed

text \<open>
  C9.  For each class of the Thermo family the keys of \<open>propertiesGlobal()\<close> and of
  \<open>propertiesPhase()\<close> are disjoint, every global key is a key of the catalog,
  \<open>propertiesPhase()\<close> is \<open>propertiesKey()\<close> with the global keys removed, in catalog
  order, and the two key sets together are the keys of the catalog.
\<close>

theorem properties_partition:
  "set (propertiesGlobal cls) \<inter> set (propertiesPhase cls) = {}
   \<and> set (propertiesGlobal cls) \<subseteq> set (propertiesKey cls)
   \<and> propertiesPhase cls
       = filter (\<lambda>p. p \<notin> set (propertiesGlobal cls)) (propertiesKey cls)
   \<and> set (propertiesGlobal cls) \<union> set (propertiesPhase cls) = set (propertiesKey cls)"
proof -
  have sub: "set (propertiesGlobal cls) \<subseteq> set (propertiesKey cls)"
    by (rule propertiesGlobal_in_catalog)
  have ph: "propertiesPhase cls
       = filter (\<lambda>p. p \<notin> set (propertiesGlobal cls)) (propertiesKey cls)"
    by (rule propertiesPhase_filter)
  have disj: "set (propertiesGlobal cls) \<inter> set (propertiesPhase cls) = {}"
    unfolding ph by auto
  have un: "set (propertiesGlobal cls) \<union> set (propertiesPhase cls) = set (propertiesKey cls)"
    unfolding ph using sub by auto
  from disj sub ph un show ?thesis by blast
qed

section \<open>Claims about SimpleEq\<close>

lemma py_pow_real: "pow_is_real x t \<Longrightarrow> py_pow x t = Inr (pow_value x t)"
  by (simp add: pow_is_real_def pow_value_def split: sum.splits)

lemma SimpleEq_loop_sum:
  "\<forall>(n, t) \<in> set nts. pow_is_real Tita t \<Longrightarrow>
   SimpleEq_loop Tita nts pr = Inr (pr + (\<Sum>(n, t) \<leftarrow> nts. n * pow_value Tita t))"
  by (induction nts arbitrary: pr) (auto simp: andthen_def py_pow_real)

lemma sum_list_zip_nth:
  "length ns = length ts \<Longrightarrow>
   (\<Sum>(n, t) \<leftarrow> zip ns ts. f n t) = (\<Sum>i < length ns. f (ns ! i) (ts ! i))"
proof -
  assume len: "length ns = length ts"
  have "(\<Sum>(n, t) \<leftarrow> zip ns ts. f n t)
      = (\<Sum>i = 0 ..< length (zip ns ts). case zip ns ts ! i of (n, t) \<Rightarrow> f n t)"
    by (simp add: sum_list_sum_nth)
  also have "\<dots> = (\<Sum>i = 0 ..< length ns. f (ns ! i) (ts ! i))"
    using len by simp
  finally show ?thesis by (simp add: atLeast0LessThan)
qed

lemma pow_is_real_iff:
  "pow_is_real x t \<longleftrightarrow>
     t = 0 \<or> 0 < x \<or> (x = 0 \<and> 0 < t) \<or> (x < 0 \<and> of_int \<lfloor>t\<rfloor> = t)"
  by (auto simp: pow_is_real_def py_pow_def)

text \<open>Below the critical temperature every power is a real number.\<close>

lemma pow_is_real_subcritical: "0 < Tc \<Longrightarrow> T < Tc \<Longrightarrow> pow_is_real (1 - T / Tc) t"
  by (simp add: pow_is_real_iff)

text \<open>\<open>SimpleEq\<close> cannot evaluate the ancillary dicts of \<open>SF6.py\<close>.\<close>

lemma SimpleEq_SF6_vapor_Pressure:
  "Tc \<noteq> 0 \<Longrightarrow> SimpleEq Tc T SF6_vapor_Pressure = Inl KeyError"
  by (simp add: SimpleEq_def SF6_vapor_Pressure_def andthen_def)

text \<open>
  C3, as the code has it.  For \<open>Tc > 0\<close>, lists \<open>n\<close> and \<open>t\<close> of equal length, every
  power \<open>\<theta> ** t\<^sub>i\<close> a real number (\<open>\<theta> = 1 - T/Tc\<close>) and \<open>eq\<close> among 1, 2, 3, 5, 6,
  with \<open>s\<close> the sum of the \<open>n\<^sub>i * \<theta> ** t\<^sub>i\<close>: form 1 returns \<open>1 + s\<close>; form 2 returns
  \<open>exp s\<close>; form 3 returns \<open>exp (s * Tc/T)\<close> (and raises for \<open>T = 0\<close>); forms 5 and 6
  return \<open>s\<close> itself, not its exponential.
\<close>

theorem SimpleEq_forms:
  fixes Tc T :: real and ns ts :: "real list"
  defines "\<theta> \<equiv> 1 - T / Tc"
  defines "s \<equiv> (\<Sum>i < length ns. ns ! i * pow_value \<theta> (ts ! i))"
  assumes "0 < Tc"
    and "length ns = length ts"
    and "\<forall>t \<in> set ts. pow_is_real \<theta> t"
    and "e \<in> {1, 2, 3, 5, 6}"
  shows "SimpleEq Tc T \<lparr>coef_eq = e, coef_n = Some ns, coef_t = Some ts\<rparr> =
           (if e = 1 then Inr (1 + s)
            else if e = 2 then Inr (exp s)
            else if e = 3 then (if T = 0 then Inl ZeroDivisionError
                                else Inr (exp (s * (Tc / T))))
            else Inr s)"
proof -
  have all: "\<forall>(n, t) \<in> set (zip ns ts). pow_is_real \<theta> t"
    using assms(5) by (auto dest: set_zip_rightD)
  have "SimpleEq_loop \<theta> (zip ns ts) 0
        = Inr (0 + (\<Sum>(n, t) \<leftarrow> zip ns ts. n * pow_value \<theta> t))"
    using all by (rule SimpleEq_loop_sum)
  also have "(\<Sum>(n, t) \<leftarrow> zip ns ts. n * pow_value \<theta> t) = s"
    unfolding s_def using assms(4) by (rule sum_list_zip_nth)
  finally have loop: "SimpleEq_loop (1 - T / Tc) (zip ns ts) 0 = Inr s"
    by (simp add: \<theta>_def)
  from assms(3) have "Tc \<noteq> 0" by simp
  then show ?thesis
    using assms(6) by (auto simp: SimpleEq_def Let_def andthen_def loop)
qed

theorem SimpleEq_forms_witness:
  "(0::real) < 2 \<and> length [1::real] = length [1::real]
   \<and> pow_is_real (1 - 1 / 2) 1
   \<and> (3::int) \<in> {1, 2, 3, 5, 6}
   \<and> SimpleEq 2 1 \<lparr>coef_eq = 3, coef_n = Some [1], coef_t = Some [1]\<rparr> = Inr (exp 1)"
  using SimpleEq_forms [of 2 "[1]" "[1]" 1 3]
  by (simp add: pow_is_real_def pow_value_def py_pow_def)

text \<open>
  The claim as written fails for form 6: with \<open>Tc = 2\<close>, \<open>T = 1\<close>, \<open>n = [1]\<close>,
  \<open>t = [1]\<close> the sum is \<open>1/2\<close>, and \<open>SimpleEq\<close> returns \<open>1/2\<close>, which is neither
  \<open>exp (1/2)\<close> nor \<open>exp (1/2 * Tc/T)\<close>.
\<close>

theorem SimpleEq_form6_not_exponential:
  "SimpleEq 2 1 \<lparr>coef_eq = 6, coef_n = Some [1], coef_t = Some [1]\<rparr> = Inr (1 / 2)
   \<and> (1 / 2 :: real) \<noteq> exp (1 / 2)
   \<and> (1 / 2 :: real) \<noteq> exp (1 / 2 * (2 / 1))"
proof -
  have run: "SimpleEq 2 1 \<lparr>coef_eq = 6, coef_n = Some [1], coef_t = Some [1]\<rparr> = Inr (1 / 2)"
    by (simp add: SimpleEq_def Let_def andthen_def py_pow_def)
  have "1 + x \<le> exp x" for x :: real
    by (rule exp_ge_add_one_self)
  from this [of "1 / 2"] this [of "1 / 2 * (2 / 1)"]
  have "(1 / 2 :: real) < exp (1 / 2)" and "(1 / 2 :: real) < exp (1 / 2 * (2 / 1))"
    by simp_all
  with run show ?thesis by simp
qed

section \<open>Claims about calcPoint\<close>

lemma map_of_dict_update_other:
  "k \<notin> fst ` set e \<Longrightarrow> map_of (dict_update d e) k = map_of d k"
  unfolding dict_update_def
  by (induction e arbitrary: d) (auto simp: update_conv')

text \<open>
  What \<open>calcPoint\<close> does for method \<open>MEOS\<close> once the equation dict \<open>e\<close> is selected.
\<close>

lemma calcPoint_MEOS:
  fixes pref :: prefs and fluid :: fluid and config :: config
    and kwargs :: "(string \<times> real) list" and e :: equation
  defines "kw \<equiv> dict_update kwargs
                   [(''eq'', of_int (config_eq config)),
                    (''visco'', of_int (config_visco config)),
                    (''thermal'', of_int (config_thermal config))]"
  defines "tmin \<equiv> eq_Tmin e" and "tmax \<equiv> eq_Tmax e"
    and "pmin \<equiv> fluido_P (fluid_call fluid (eq_Tmin e) 0)"
    and "pmax \<equiv> eq_Pmax e * 1000"
  defines "fluido \<equiv> fluid_new fluid kw"
  defines "clamp \<equiv> calcPoint_melting ''MEOS'' fluido
                      \<lparr>Tmin = tmin, Tmax = tmax, Pmin = pmin, Pmax = pmax\<rparr>"
  assumes "getMethod pref = ''MEOS''"
    and "fluid_eq fluid = EqTuple eqs"
    and "py_index eqs (config_eq config) = Inr e"
  shows "calcPoint pref fluid config kwargs =
     (if (\<exists>t. map_of kwargs ''T'' = Some t \<and> (t < tmin \<or> t > tmax))
         \<or> (\<exists>p. map_of kwargs ''P'' = Some p \<and> (p < pmin - 1 \<or> p > pmax + 1))
      then ([Call tmin 0], Inr None)
      else if fluido_status fluido \<notin> {1, 3} then ([Call tmin 0, New kw], Inr None)
      else ([Call tmin 0, New kw] @ fst clamp,
            if fluido_P fluido < pmin - 1 \<or> fluido_P fluido > Pmax (snd clamp) + 1
               \<or> fluido_T fluido < tmin \<or> fluido_T fluido > tmax
            then Inr None else Inr (Some fluido)))"
proof -
  have T: "map_of kw ''T'' = map_of kwargs ''T''" and P: "map_of kw ''P'' = map_of kwargs ''P''"
    by (simp_all add: kw_def map_of_dict_update_other)
  have lims: "calcPoint_limits ''MEOS'' fluid config =
      Inr ([Call tmin 0], Some \<lparr>Tmin = tmin, Tmax = tmax, Pmin = pmin, Pmax = pmax\<rparr>)"
    using assms(9,10)
    by (simp add: calcPoint_limits_def andthen_def tmin_def tmax_def pmin_def pmax_def)
  define rej where "rej \<longleftrightarrow>
          (\<exists>t. map_of kwargs ''T'' = Some t \<and> (t < tmin \<or> t > tmax))
        \<or> (\<exists>p. map_of kwargs ''P'' = Some p \<and> (p < pmin - 1 \<or> p > pmax + 1))"
  have pre: "calcPoint_precheck kw (Some \<lparr>Tmin = tmin, Tmax = tmax, Pmin = pmin, Pmax = pmax\<rparr>)
      = Inr rej"
    by (auto simp: calcPoint_precheck_def andthen_def T P rej_def split: option.splits)
  obtain ev2 l where c: "clamp = (ev2, l)"
    by (cases clamp)
  have "Tmin (snd clamp) = tmin" "Tmax (snd clamp) = tmax" "Pmin (snd clamp) = pmin"
    by (simp_all add: clamp_def calcPoint_melting_def split: option.splits)
  then have frame: "Tmin l = tmin" "Tmax l = tmax" "Pmin l = pmin"
    by (simp_all add: c)
  have "calcPoint pref fluid config kwargs =
     (if rej then ([Call tmin 0], Inr None)
      else if fluido_status fluido \<notin> {1, 3} then ([Call tmin 0, New kw], Inr None)
      else ([Call tmin 0, New kw] @ ev2,
            if fluido_P fluido < pmin - 1 \<or> fluido_P fluido > Pmax l + 1
               \<or> fluido_T fluido < tmin \<or> fluido_T fluido > tmax
            then Inr None else Inr (Some fluido)))"
    unfolding calcPoint_def Let_def assms(8) lims
    by (cases rej)
       (simp_all add: kw_def [symmetric] fluido_def [symmetric] clamp_def [symmetric]
          pre c frame)
  then show ?thesis by (simp add: c rej_def)
qed

lemma toy_kw:
  "dict_update (toy_kwargs t p)
     [(''eq'', of_int (config_eq config0)), (''visco'', of_int (config_visco config0)),
      (''thermal'', of_int (config_thermal config0))]
   = [(''T'', t), (''P'', p), (''eq'', 0), (''visco'', 0), (''thermal'', 0)]"
  by (simp add: dict_update_def toy_kwargs_def config0_def)

lemma toy_run:
  "calcPoint meos_prefs (toy_fluid mel) config0 (toy_kwargs t p) =
     (if t < 100 \<or> t > 500 \<or> p < 999 \<or> p > 1000001 then ([Call 100 0], Inr None)
      else
        ([Call 100 0, New [(''T'', t), (''P'', p), (''eq'', 0), (''visco'', 0), (''thermal'', 0)]]
           @ fst (calcPoint_melting ''MEOS'' (toy_fluido mel t p)
                    \<lparr>Tmin = 100, Tmax = 500, Pmin = 1000, Pmax = 1000000\<rparr>),
         if p > Pmax (snd (calcPoint_melting ''MEOS'' (toy_fluido mel t p)
                    \<lparr>Tmin = 100, Tmax = 500, Pmin = 1000, Pmax = 1000000\<rparr>)) + 1
         then Inr None else Inr (Some (toy_fluido mel t p))))"
proof -
  have m: "getMethod meos_prefs = ''MEOS''"
    by (simp add: getMethod_def meos_prefs_def)
  have q: "fluid_eq (toy_fluid mel)
      = EqTuple [\<lparr>eq_Tmin = 100, eq_Tmax = 500, eq_Pmin = 1, eq_Pmax = 1000\<rparr>]"
    by (simp add: toy_fluid_def)
  have i: "py_index [\<lparr>eq_Tmin = 100, eq_Tmax = 500, eq_Pmin = 1, eq_Pmax = 1000\<rparr>]
             (config_eq config0)
      = Inr \<lparr>eq_Tmin = 100, eq_Tmax = 500, eq_Pmin = 1, eq_Pmax = 1000\<rparr>"
    by (simp add: py_index_def config0_def)
  have n: "fluid_new (toy_fluid mel)
             [(''T'', t), (''P'', p), (''eq'', 0), (''visco'', 0), (''thermal'', 0)]
           = toy_fluido mel t p"
    by (simp add: toy_fluid_def)
  have c: "fluido_P (fluid_call (toy_fluid mel) 100 0) = 1000"
    by (simp add: toy_fluid_def toy_fluido_def)
  have k: "map_of (toy_kwargs t p) ''T'' = Some t" "map_of (toy_kwargs t p) ''P'' = Some p"
    by (simp_all add: toy_kwargs_def)
  have s: "fluido_status (toy_fluido mel t p) = 1" "fluido_T (toy_fluido mel t p) = t"
    "fluido_P (toy_fluido mel t p) = p"
    by (simp_all add: toy_fluido_def)
  show ?thesis
    using calcPoint_MEOS [OF m q i, of "toy_kwargs t p"]
    by (auto simp: toy_kw n c k s)
qed

text \<open>
  C5, as the code has it (method \<open>MEOS\<close>, equation dict \<open>e\<close> selected; \<open>Pmin\<close> is the
  pressure of \<open>fluid(T=Tmin, x=0)\<close>, \<open>Pmax\<close> the declared one times 1000).  A query
  whose input \<open>T\<close> is below \<open>Tmin\<close> or above \<open>Tmax\<close>, or whose input \<open>P\<close> is below
  \<open>Pmin - 1\<close> or above \<open>Pmax + 1\<close>, returns \<open>None\<close> and \<open>fluid._new\<close> is not called; so
  does a query with \<open>T = Tmin - \<epsilon>\<close>.  A query on the corner \<open>(Tmin, Pmin)\<close> of a
  window with \<open>Tmin \<le> Tmax\<close> and \<open>Pmin \<le> Pmax + 1\<close> passes the check of the inputs, the
  state is calculated, and it is returned exactly when its status is 1 or 3 and its
  \<open>P\<close> and \<open>T\<close> lie in the window whose upper pressure is lowered to the melting
  pressure inside the range of the melting curve.
\<close>

theorem calcPoint_range_check:
  fixes pref :: prefs and fluid :: fluid and config :: config
    and kwargs :: "(string \<times> real) list" and e :: equation
  defines "kw \<equiv> dict_update kwargs
                   [(''eq'', of_int (config_eq config)),
                    (''visco'', of_int (config_visco config)),
                    (''thermal'', of_int (config_thermal config))]"
  defines "tmin \<equiv> eq_Tmin e" and "tmax \<equiv> eq_Tmax e"
    and "pmin \<equiv> fluido_P (fluid_call fluid (eq_Tmin e) 0)"
    and "pmax \<equiv> eq_Pmax e * 1000"
  defines "fluido \<equiv> fluid_new fluid kw"
  defines "pmax_melting \<equiv>
     (case fluido_melting fluido of
        None \<Rightarrow> pmax
      | Some m \<Rightarrow>
          if melting_Tmin m \<le> fluido_T fluido \<and> fluido_T fluido \<le> melting_Tmax m
          then min pmax (fluido_Melting_Pressure fluido (fluido_T fluido))
          else pmax)"
  assumes "getMethod pref = ''MEOS''"
    and "fluid_eq fluid = EqTuple eqs"
    and "py_index eqs (config_eq config) = Inr e"
  shows "(\<forall>t. map_of kwargs ''T'' = Some t \<and> (t < tmin \<or> tmax < t) \<longrightarrow>
            calcPoint pref fluid config kwargs = ([Call tmin 0], Inr None))
       \<and> (\<forall>p. map_of kwargs ''P'' = Some p \<and> (p < pmin - 1 \<or> pmax + 1 < p) \<longrightarrow>
            calcPoint pref fluid config kwargs = ([Call tmin 0], Inr None))
       \<and> (\<forall>\<epsilon>. 0 < \<epsilon> \<and> map_of kwargs ''T'' = Some (tmin - \<epsilon>) \<longrightarrow>
            calcPoint pref fluid config kwargs = ([Call tmin 0], Inr None))
       \<and> (map_of kwargs ''T'' = Some tmin \<and> map_of kwargs ''P'' = Some pmin
            \<and> tmin \<le> tmax \<and> pmin \<le> pmax + 1 \<longrightarrow>
            (\<exists>evs. fst (calcPoint pref fluid config kwargs) = [Call tmin 0, New kw] @ evs)
            \<and> snd (calcPoint pref fluid config kwargs) =
                (if fluido_status fluido \<in> {1, 3}
                    \<and> pmin - 1 \<le> fluido_P fluido \<and> fluido_P fluido \<le> pmax_melting + 1
                    \<and> tmin \<le> fluido_T fluido \<and> fluido_T fluido \<le> tmax
                 then Inr (Some fluido) else Inr None))"
proof -
  define clamp where "clamp = calcPoint_melting ''MEOS'' fluido
                      \<lparr>Tmin = tmin, Tmax = tmax, Pmin = pmin, Pmax = pmax\<rparr>"
  have pm: "Pmax (snd clamp) = pmax_melting"
    by (simp add: clamp_def calcPoint_melting_def pmax_melting_def split: option.splits)
  note run = calcPoint_MEOS [OF assms(8-10), of kwargs,
      folded kw_def tmin_def tmax_def pmin_def pmax_def, folded fluido_def, folded clamp_def]
  have a: "\<forall>t. map_of kwargs ''T'' = Some t \<and> (t < tmin \<or> tmax < t) \<longrightarrow>
            calcPoint pref fluid config kwargs = ([Call tmin 0], Inr None)"
    using run by auto
  have b: "\<forall>p. map_of kwargs ''P'' = Some p \<and> (p < pmin - 1 \<or> pmax + 1 < p) \<longrightarrow>
            calcPoint pref fluid config kwargs = ([Call tmin 0], Inr None)"
    using run by auto
  have c: "\<forall>\<epsilon>. 0 < \<epsilon> \<and> map_of kwargs ''T'' = Some (tmin - \<epsilon>) \<longrightarrow>
            calcPoint pref fluid config kwargs = ([Call tmin 0], Inr None)"
  proof (intro allI impI)
    fix \<epsilon> :: real
    assume h: "0 < \<epsilon> \<and> map_of kwargs ''T'' = Some (tmin - \<epsilon>)"
    then have "tmin - \<epsilon> < tmin" by simp
    with h a show "calcPoint pref fluid config kwargs = ([Call tmin 0], Inr None)"
      by blast
  qed
  have d: "map_of kwargs ''T'' = Some tmin \<and> map_of kwargs ''P'' = Some pmin
            \<and> tmin \<le> tmax \<and> pmin \<le> pmax + 1 \<longrightarrow>
            (\<exists>evs. fst (calcPoint pref fluid config kwargs) = [Call tmin 0, New kw] @ evs)
            \<and> snd (calcPoint pref fluid config kwargs) =
                (if fluido_status fluido \<in> {1, 3}
                    \<and> pmin - 1 \<le> fluido_P fluido \<and> fluido_P fluido \<le> pmax_melting + 1
                    \<and> tmin \<le> fluido_T fluido \<and> fluido_T fluido \<le> tmax
                 then Inr (Some fluido) else Inr None)"
  proof (intro impI, elim conjE)
    assume h: "map_of kwargs ''T'' = Some tmin" "map_of kwargs ''P'' = Some pmin"
      "tmin \<le> tmax" "pmin \<le> pmax + 1"
    then have pass: "\<not> ((\<exists>t. map_of kwargs ''T'' = Some t \<and> (t < tmin \<or> t > tmax))
         \<or> (\<exists>p. map_of kwargs ''P'' = Some p \<and> (p < pmin - 1 \<or> p > pmax + 1)))"
      by auto
    show "(\<exists>evs. fst (calcPoint pref fluid config kwargs) = [Call tmin 0, New kw] @ evs)
            \<and> snd (calcPoint pref fluid config kwargs) =
                (if fluido_status fluido \<in> {1, 3}
                    \<and> pmin - 1 \<le> fluido_P fluido \<and> fluido_P fluido \<le> pmax_melting + 1
                    \<and> tmin \<le> fluido_T fluido \<and> fluido_T fluido \<le> tmax
                 then Inr (Some fluido) else Inr None)"
      unfolding run using pass by (auto simp: pm)
  qed
  from a b c d show ?thesis by blast
qed

theorem calcPoint_range_check_witness:
  "getMethod meos_prefs = ''MEOS''
   \<and> fluid_eq (toy_fluid None)
       = EqTuple [\<lparr>eq_Tmin = 100, eq_Tmax = 500, eq_Pmin = 1, eq_Pmax = 1000\<rparr>]
   \<and> py_index [\<lparr>eq_Tmin = 100, eq_Tmax = 500, eq_Pmin = 1, eq_Pmax = 1000\<rparr>]
        (config_eq config0)
       = Inr \<lparr>eq_Tmin = 100, eq_Tmax = 500, eq_Pmin = 1, eq_Pmax = 1000\<rparr>
   \<and> map_of (toy_kwargs 50 2000) ''T'' = Some 50 \<and> (50 :: real) < 100
   \<and> calcPoint meos_prefs (toy_fluid None) config0 (toy_kwargs 50 2000)
       = ([Call 100 0], Inr None)
   \<and> map_of (toy_kwargs 200 2000000) ''P'' = Some 2000000
   \<and> (1000 * 1000 + 1 :: real) < 2000000
   \<and> calcPoint meos_prefs (toy_fluid None) config0 (toy_kwargs 200 2000000)
       = ([Call 100 0], Inr None)
   \<and> (0 :: real) < 1 \<and> map_of (toy_kwargs 99 2000) ''T'' = Some (100 - 1)
   \<and> calcPoint meos_prefs (toy_fluid None) config0 (toy_kwargs 99 2000)
       = ([Call 100 0], Inr None)
   \<and> map_of (toy_kwargs 100 1000) ''T'' = Some 100
   \<and> map_of (toy_kwargs 100 1000) ''P'' = Some 1000
   \<and> (100 :: real) \<le> 500 \<and> (1000 :: real) \<le> 1000 * 1000 + 1
   \<and> snd (calcPoint meos_prefs (toy_fluid None) config0 (toy_kwargs 100 1000))
       = Inr (Some (toy_fluido None 100 1000))"
proof -
  have m: "getMethod meos_prefs = ''MEOS''"
    by (simp add: getMethod_def meos_prefs_def)
  have q: "fluid_eq (toy_fluid None)
      = EqTuple [\<lparr>eq_Tmin = 100, eq_Tmax = 500, eq_Pmin = 1, eq_Pmax = 1000\<rparr>]"
    by (simp add: toy_fluid_def)
  have i: "py_index [\<lparr>eq_Tmin = 100, eq_Tmax = 500, eq_Pmin = 1, eq_Pmax = 1000\<rparr>]
             (config_eq config0)
      = Inr \<lparr>eq_Tmin = 100, eq_Tmax = 500, eq_Pmin = 1, eq_Pmax = 1000\<rparr>"
    by (simp add: py_index_def config0_def)
  have c: "fluido_P (fluid_call (toy_fluid None) 100 0) = 1000"
    by (simp add: toy_fluid_def toy_fluido_def)
  have n: "fluid_new (toy_fluid None)
             [(''T'', 100), (''P'', 1000), (''eq'', 0), (''visco'', 0), (''thermal'', 0)]
           = toy_fluido None 100 1000"
    by (simp add: toy_fluid_def)
  have s: "fluido_status (toy_fluido None 100 1000) = 1"
    "fluido_T (toy_fluido None 100 1000) = 100"
    "fluido_P (toy_fluido None 100 1000) = 1000"
    "fluido_melting (toy_fluido None 100 1000) = None"
    by (simp_all add: toy_fluido_def)
  have k: "map_of (toy_kwargs t p) ''T'' = Some t" "map_of (toy_kwargs t p) ''P'' = Some p"
    for t p :: real
    by (simp_all add: toy_kwargs_def)
  show ?thesis
    using calcPoint_range_check [OF m q i, of "toy_kwargs 50 2000"]
      calcPoint_range_check [OF m q i, of "toy_kwargs 200 2000000"]
      calcPoint_range_check [OF m q i, of "toy_kwargs 99 2000"]
      calcPoint_range_check [OF m q i, of "toy_kwargs 100 1000"]
    by (simp add: m q i c k toy_kw n s)
qed

text \<open>
  The claim as written fails on the corner.  In the example the melting curve is
  declared from 100 K and its pressure at 100 K is 500 Pa, below \<open>Pmin = 1000\<close> Pa:
  the query \<open>T = Tmin\<close>, \<open>P = Pmin\<close> passes the check of the inputs, the state is
  calculated with status 1, and \<open>calcPoint\<close> returns \<open>None\<close>.
\<close>

theorem calcPoint_corner_rejected:
  "map_of (toy_kwargs 100 1000) ''T''
     = Some (eq_Tmin \<lparr>eq_Tmin = 100, eq_Tmax = 500, eq_Pmin = 1, eq_Pmax = 1000\<rparr>)
   \<and> map_of (toy_kwargs 100 1000) ''P''
     = Some (fluido_P (fluid_call (toy_fluid (Some toy_melting)) 100 0))
   \<and> fluido_status (fluid_new (toy_fluid (Some toy_melting))
        [(''T'', 100), (''P'', 1000), (''eq'', 0), (''visco'', 0), (''thermal'', 0)]) = 1
   \<and> calcPoint meos_prefs (toy_fluid (Some toy_melting)) config0 (toy_kwargs 100 1000)
     = ([Call 100 0,
         New [(''T'', 100), (''P'', 1000), (''eq'', 0), (''visco'', 0), (''thermal'', 0)],
         MeltingPressure 100],
        Inr None)"
  by (simp add: toy_run)
     (simp add: toy_kwargs_def toy_fluid_def toy_fluido_def toy_melting_def
        calcPoint_melting_def)

text \<open>
  C6.  For method \<open>MEOS\<close> and a query that gives \<open>T\<close> and \<open>P\<close>: when the calculated
  state has a melting curve and its temperature lies in the declared range of the
  curve, \<open>calcPoint\<close> (if the inputs pass the check and the status is 1 or 3) calls
  \<open>_Melting_Pressure\<close> at that temperature and uses \<open>min(Pmax, Pmel)\<close> as the upper
  pressure limit; a state whose pressure exceeds that limit by more than 1 is not
  returned.
\<close>

theorem calcPoint_melting_clamp:
  fixes pref :: prefs and fluid :: fluid and config :: config
    and kwargs :: "(string \<times> real) list" and e :: equation
  defines "kw \<equiv> dict_update kwargs
                   [(''eq'', of_int (config_eq config)),
                    (''visco'', of_int (config_visco config)),
                    (''thermal'', of_int (config_thermal config))]"
  defines "tmin \<equiv> eq_Tmin e" and "tmax \<equiv> eq_Tmax e"
    and "pmin \<equiv> fluido_P (fluid_call fluid (eq_Tmin e) 0)"
    and "pmax \<equiv> eq_Pmax e * 1000"
  defines "fluido \<equiv> fluid_new fluid kw"
  defines "pmel \<equiv> fluido_Melting_Pressure fluido (fluido_T fluido)"
  assumes "getMethod pref = ''MEOS''"
    and "fluid_eq fluid = EqTuple eqs"
    and "py_index eqs (config_eq config) = Inr e"
    and "map_of kwargs ''T'' = Some t"
    and "map_of kwargs ''P'' = Some p"
    and "fluido_melting fluido = Some m"
    and "melting_Tmin m \<le> fluido_T fluido"
    and "fluido_T fluido \<le> melting_Tmax m"
  shows "calcPoint pref fluid config kwargs =
           (if t < tmin \<or> tmax < t \<or> p < pmin - 1 \<or> pmax + 1 < p
            then ([Call tmin 0], Inr None)
            else if fluido_status fluido \<notin> {1, 3} then ([Call tmin 0, New kw], Inr None)
            else ([Call tmin 0, New kw, MeltingPressure (fluido_T fluido)],
                  if fluido_P fluido < pmin - 1 \<or> min pmax pmel + 1 < fluido_P fluido
                     \<or> fluido_T fluido < tmin \<or> tmax < fluido_T fluido
                  then Inr None else Inr (Some fluido)))
       \<and> (min pmax pmel + 1 < fluido_P fluido \<longrightarrow>
            snd (calcPoint pref fluid config kwargs) = Inr None)"
proof -
  define clamp where "clamp = calcPoint_melting ''MEOS'' fluido
                      \<lparr>Tmin = tmin, Tmax = tmax, Pmin = pmin, Pmax = pmax\<rparr>"
  have cl: "clamp = ([MeltingPressure (fluido_T fluido)],
                     \<lparr>Tmin = tmin, Tmax = tmax, Pmin = pmin, Pmax = min pmax pmel\<rparr>)"
    using assms(13-15) by (simp add: clamp_def calcPoint_melting_def pmel_def)
  note run = calcPoint_MEOS [OF assms(8-10), of kwargs,
      folded kw_def tmin_def tmax_def pmin_def pmax_def, folded fluido_def, folded clamp_def]
  have full: "calcPoint pref fluid config kwargs =
           (if t < tmin \<or> tmax < t \<or> p < pmin - 1 \<or> pmax + 1 < p
            then ([Call tmin 0], Inr None)
            else if fluido_status fluido \<notin> {1, 3} then ([Call tmin 0, New kw], Inr None)
            else ([Call tmin 0, New kw, MeltingPressure (fluido_T fluido)],
                  if fluido_P fluido < pmin - 1 \<or> min pmax pmel + 1 < fluido_P fluido
                     \<or> fluido_T fluido < tmin \<or> tmax < fluido_T fluido
                  then Inr None else Inr (Some fluido)))"
    unfolding run using assms(11,12) by (simp add: cl)
  have "min pmax pmel + 1 < fluido_P fluido \<longrightarrow>
            snd (calcPoint pref fluid config kwargs) = Inr None"
    unfolding full by simp
  with full show ?thesis by blast
qed

theorem calcPoint_melting_clamp_witness:
  "getMethod meos_prefs = ''MEOS''
   \<and> fluid_eq (toy_fluid (Some toy_melting))
       = EqTuple [\<lparr>eq_Tmin = 100, eq_Tmax = 500, eq_Pmin = 1, eq_Pmax = 1000\<rparr>]
   \<and> py_index [\<lparr>eq_Tmin = 100, eq_Tmax = 500, eq_Pmin = 1, eq_Pmax = 1000\<rparr>]
        (config_eq config0)
       = Inr \<lparr>eq_Tmin = 100, eq_Tmax = 500, eq_Pmin = 1, eq_Pmax = 1000\<rparr>
   \<and> map_of (toy_kwargs 150 2000) ''T'' = Some 150
   \<and> map_of (toy_kwargs 150 2000) ''P'' = Some 2000
   \<and> fluido_melting (toy_fluido (Some toy_melting) 150 2000) = Some toy_melting
   \<and> melting_Tmin toy_melting \<le> 150 \<and> 150 \<le> melting_Tmax toy_melting
   \<and> min (1000 * 1000) (5 * 150) + 1 < (2000 :: real)
   \<and> calcPoint meos_prefs (toy_fluid (Some toy_melting)) config0 (toy_kwargs 150 2000)
       = ([Call 100 0,
           New [(''T'', 150), (''P'', 2000), (''eq'', 0), (''visco'', 0), (''thermal'', 0)],
           MeltingPressure 150],
          Inr None)"
proof -
  have m: "getMethod meos_prefs = ''MEOS''"
    by (simp add: getMethod_def meos_prefs_def)
  have q: "fluid_eq (toy_fluid (Some toy_melting))
      = EqTuple [\<lparr>eq_Tmin = 100, eq_Tmax = 500, eq_Pmin = 1, eq_Pmax = 1000\<rparr>]"
    by (simp add: toy_fluid_def)
  have i: "py_index [\<lparr>eq_Tmin = 100, eq_Tmax = 500, eq_Pmin = 1, eq_Pmax = 1000\<rparr>]
             (config_eq config0)
      = Inr \<lparr>eq_Tmin = 100, eq_Tmax = 500, eq_Pmin = 1, eq_Pmax = 1000\<rparr>"
    by (simp add: py_index_def config0_def)
  have c: "fluido_P (fluid_call (toy_fluid (Some toy_melting)) 100 0) = 1000"
    by (simp add: toy_fluid_def toy_fluido_def)
  have n: "fluid_new (toy_fluid (Some toy_melting))
             [(''T'', 150), (''P'', 2000), (''eq'', 0), (''visco'', 0), (''thermal'', 0)]
           = toy_fluido (Some toy_melting) 150 2000"
    by (simp add: toy_fluid_def)
  have s: "fluido_status (toy_fluido (Some toy_melting) 150 2000) = 1"
    "fluido_T (toy_fluido (Some toy_melting) 150 2000) = 150"
    "fluido_P (toy_fluido (Some toy_melting) 150 2000) = 2000"
    "fluido_melting (toy_fluido (Some toy_melting) 150 2000) = Some toy_melting"
    "fluido_Melting_Pressure (toy_fluido (Some toy_melting) 150 2000) 150 = 750"
    by (simp_all add: toy_fluido_def)
  have r: "melting_Tmin toy_melting \<le> 150" "150 \<le> melting_Tmax toy_melting"
    by (simp_all add: toy_melting_def)
  have k: "map_of (toy_kwargs 150 2000) ''T'' = Some 150"
    "map_of (toy_kwargs 150 2000) ''P'' = Some 2000"
    by (simp_all add: toy_kwargs_def)
  have mel: "fluido_melting (fluid_new (toy_fluid (Some toy_melting))
        (dict_update (toy_kwargs 150 2000)
          [(''eq'', of_int (config_eq config0)), (''visco'', of_int (config_visco config0)),
           (''thermal'', of_int (config_thermal config0))])) = Some toy_melting"
    by (simp add: toy_kw n s)
  have lo: "melting_Tmin toy_melting \<le> fluido_T (fluid_new (toy_fluid (Some toy_melting))
        (dict_update (toy_kwargs 150 2000)
          [(''eq'', of_int (config_eq config0)), (''visco'', of_int (config_visco config0)),
           (''thermal'', of_int (config_thermal config0))]))"
    by (simp add: toy_kw n s r)
  have hi: "fluido_T (fluid_new (toy_fluid (Some toy_melting))
        (dict_update (toy_kwargs 150 2000)
          [(''eq'', of_int (config_eq config0)), (''visco'', of_int (config_visco config0)),
           (''thermal'', of_int (config_thermal config0))])) \<le> melting_Tmax toy_melting"
    by (simp add: toy_kw n s r)
  show ?thesis
    using calcPoint_melting_clamp [OF m q i k mel lo hi]
    by (simp add: m q i c k toy_kw n s r)
qed

subsection \<open>The other two methods\<close>

text \<open>
  For \<open>COOLPROP\<close> the four limits are the declared ones and no melting curve is
  consulted; the check of the inputs is the same.
\<close>

lemma calcPoint_COOLPROP:
  assumes "getMethod pref = ''COOLPROP''" and "fluid_eq fluid = EqDict d"
  shows "calcPoint pref fluid config kwargs =
     (if (\<exists>t. map_of kwargs ''T'' = Some t \<and> (t < eq_Tmin d \<or> t > eq_Tmax d))
         \<or> (\<exists>p. map_of kwargs ''P'' = Some p \<and> (p < eq_Pmin d - 1 \<or> p > eq_Pmax d + 1))
      then ([], Inr None)
      else if fluido_status (fluid_new fluid kwargs) \<notin> {1, 3} then ([New kwargs], Inr None)
      else ([New kwargs],
            if fluido_P (fluid_new fluid kwargs) < eq_Pmin d - 1
               \<or> fluido_P (fluid_new fluid kwargs) > eq_Pmax d + 1
               \<or> fluido_T (fluid_new fluid kwargs) < eq_Tmin d
               \<or> fluido_T (fluid_new fluid kwargs) > eq_Tmax d
            then Inr None else Inr (Some (fluid_new fluid kwargs))))"
proof -
  define rej where "rej \<longleftrightarrow>
          (\<exists>t. map_of kwargs ''T'' = Some t \<and> (t < eq_Tmin d \<or> t > eq_Tmax d))
        \<or> (\<exists>p. map_of kwargs ''P'' = Some p \<and> (p < eq_Pmin d - 1 \<or> p > eq_Pmax d + 1))"
  have pre: "calcPoint_precheck kwargs
      (Some \<lparr>Tmin = eq_Tmin d, Tmax = eq_Tmax d, Pmin = eq_Pmin d, Pmax = eq_Pmax d\<rparr>) = Inr rej"
    by (auto simp: calcPoint_precheck_def andthen_def rej_def split: option.splits)
  have "calcPoint pref fluid config kwargs =
     (if rej then ([], Inr None)
      else if fluido_status (fluid_new fluid kwargs) \<notin> {1, 3} then ([New kwargs], Inr None)
      else ([New kwargs],
            if fluido_P (fluid_new fluid kwargs) < eq_Pmin d - 1
               \<or> fluido_P (fluid_new fluid kwargs) > eq_Pmax d + 1
               \<or> fluido_T (fluid_new fluid kwargs) < eq_Tmin d
               \<or> fluido_T (fluid_new fluid kwargs) > eq_Tmax d
            then Inr None else Inr (Some (fluid_new fluid kwargs))))"
    unfolding calcPoint_def Let_def assms(1)
    by (cases rej)
       (simp_all add: calcPoint_limits_def assms(2) pre calcPoint_melting_def)
  then show ?thesis by (simp add: rej_def)
qed

text \<open>
  For \<open>REFPROP\<close> no limit is bound: a query that gives \<open>T\<close> raises
  \<open>UnboundLocalError\<close> at the first comparison, before \<open>fluid._new\<close> is called.
\<close>

lemma calcPoint_REFPROP:
  assumes "getMethod pref = ''REFPROP''" and "map_of kwargs ''T'' = Some t"
  shows "calcPoint pref fluid config kwargs = ([], Inl UnboundLocalError)"
  unfolding calcPoint_def Let_def assms(1)
  by (simp add: calcPoint_limits_def calcPoint_precheck_def assms(2) andthen_def)

section \<open>Claims about writeStatetoJSON and readStatefromJSON\<close>

lemma write_unsolved:
  "\<not> thermo_bool self \<Longrightarrow>
   writeStatetoJSON cls self state fase = Inr (AList.update fase [] state)"
  by (cases cls)
     (simp_all add: Thermo_writeStatetoJSON_def ThermoWater_writeStatetoJSON_def
        ThermoAdvanced_writeStatetoJSON_def ThermoRefProp_writeStatetoJSON_def
        write_more_def andthen_def)

lemma read_empty: "readStatefromJSON cls target [] = Inr target"
  by (cases cls)
     (simp_all add: Thermo_readStatefromJSON_def ThermoWater_readStatefromJSON_def
        ThermoAdvanced_readStatefromJSON_def ThermoRefProp_readStatefromJSON_def
        read_more_def andthen_def)

text \<open>
  C10.  For each class of the family: on an instance whose \<open>_bool\<close> is false,
  \<open>writeStatetoJSON\<close> stores the empty dict under the phase key, with no entry in it,
  and leaves the other phases of \<open>state\<close> as they were; \<open>readStatefromJSON\<close> on the
  empty dict returns the target instance unchanged, its attributes and its \<open>_bool\<close>.
\<close>

theorem unsolved_phase_inert:
  assumes "\<not> thermo_bool self"
  shows "writeStatetoJSON cls self state fase = Inr (AList.update fase [] state)
       \<and> map_of (AList.update fase [] state) fase = Some []
       \<and> readStatefromJSON cls target [] = Inr target"
  using assms by (simp add: write_unsolved read_empty update_conv')

theorem unsolved_phase_inert_witness:
  "\<not> thermo_bool \<lparr>thermo_bool = False, attrs = [(''T'', Float 300)]\<rparr>
   \<and> writeStatetoJSON ThermoAdvanced \<lparr>thermo_bool = False, attrs = [(''T'', Float 300)]\<rparr>
        [(''Gas'', [(''M'', Float 18)])] ''Liquido''
       = Inr [(''Gas'', [(''M'', Float 18)]), (''Liquido'', [])]
   \<and> readStatefromJSON ThermoAdvanced \<lparr>thermo_bool = False, attrs = [(''T'', Float 300)]\<rparr> []
       = Inr \<lparr>thermo_bool = False, attrs = [(''T'', Float 300)]\<rparr>"
  using unsolved_phase_inert [of "\<lparr>thermo_bool = False, attrs = [(''T'', Float 300)]\<rparr>"
      ThermoAdvanced "[(''Gas'', [(''M'', Float 18)])]" "''Liquido''"
      "\<lparr>thermo_bool = False, attrs = [(''T'', Float 300)]\<rparr>"]
  by simp

subsection \<open>The statements of readStatefromJSON, one by one\<close>

lemma andthen_Inr: "andthen (Inr x) f = f x"
  by (simp add: andthen_def)

lemma unidad_number:
  "is_number (Some x) \<Longrightarrow> unidad u x = Inr (Quantity u (magnitude x))"
  by (cases x) (simp_all add: is_number_def unidad_def magnitude_def)

lemma from_key_number:
  "is_number (map_of fluid k) \<Longrightarrow>
   from_key a u k fluid self = Inr (setattr self a (Quantity u (num_at fluid k)))"
  by (cases "map_of fluid k")
     (simp_all add: from_key_def getitem_def andthen_def unidad_number num_at_def
        is_number_def)

lemma from_key_absent:
  "map_of fluid k = None \<Longrightarrow> from_key a u k fluid self = Inl KeyError"
  by (simp add: from_key_def getitem_def andthen_def)

lemma from_zero_run:
  "from_zero a u fluid self = Inr (setattr self a (Quantity u 0))"
  by (simp add: from_zero_def unidad_def andthen_def)

lemma map_each_numbers:
  "list_all (\<lambda>y. is_number (Some y)) xs \<Longrightarrow>
   map_each (unidad u) xs = Inr (map (\<lambda>y. Quantity u (magnitude y)) xs)"
  by (induction xs) (simp_all add: unidad_number andthen_def)

lemma from_key_each_list:
  "is_number_list (map_of fluid k) \<Longrightarrow>
   from_key_each a u k fluid self = Inr (setattr self a (listed u (map_of fluid k)))"
  by (auto simp: from_key_each_def getitem_def andthen_def is_number_list_def listed_def
        map_each_numbers split: option.splits pyval.splits)

lemma from_key_each_number:
  "is_number (map_of fluid k) \<Longrightarrow> from_key_each a u k fluid self = Inl TypeError"
  by (auto simp: from_key_each_def getitem_def andthen_def is_number_def
        split: option.splits pyval.splits)

lemma from_key_single_number:
  "is_number (map_of fluid k) \<Longrightarrow>
   from_key_single a u k fluid self = Inr (setattr self a (listed u (map_of fluid k)))"
  by (auto simp: from_key_single_def getitem_def andthen_def is_number_def listed_def
        unidad_def magnitude_def split: option.splits pyval.splits)

lemma getattr_setattr:
  "getattr (setattr self a x) b = (if b = a then Inr x else getattr self b)"
  by (simp add: getattr_def setattr_def update_conv')

lemma attrs_setattr:
  "map_of (attrs (setattr self a x)) b = (if b = a then Some x else map_of (attrs self) b)"
  by (simp add: setattr_def update_conv')

lemma thermo_bool_setattr: "thermo_bool (setattr self a x) = thermo_bool self"
  by (simp add: setattr_def)

lemma try_from_key_default:
  "map_of fluid k = None \<or> is_number (map_of fluid k) \<Longrightarrow>
   try_except KeyError (run [from_key a u k]) (run [from_zero a u]) fluid self
     = Inr (setattr self a (Quantity u (num_at fluid k)))"
  by (auto simp: try_except_def andthen_def from_key_number from_key_absent from_zero_run
        num_at_def)

lemma try_virial:
  "map_of fluid ''virialB'' = None \<or> is_number (map_of fluid ''virialB'') \<Longrightarrow>
   map_of fluid ''virialC'' = None \<or> is_number (map_of fluid ''virialC'') \<Longrightarrow>
   try_except KeyError
     (run [from_key ''virialB'' SpecificVolume ''virialB'',
           from_key ''virialC'' SpecificVolume_square ''virialC''])
     (run [from_zero ''virialB'' SpecificVolume,
           from_zero ''virialC'' SpecificVolume_square]) fluid self
   = Inr (setattr
           (setattr self ''virialB''
              (Quantity SpecificVolume
                 (if map_of fluid ''virialB'' = None \<or> map_of fluid ''virialC'' = None
                  then 0 else num_at fluid ''virialB'')))
           ''virialC''
           (Quantity SpecificVolume_square
              (if map_of fluid ''virialB'' = None \<or> map_of fluid ''virialC'' = None
               then 0 else num_at fluid ''virialC'')))"
  by (auto simp: try_except_def andthen_def from_key_number from_key_absent from_zero_run
        is_number_def)

lemma try_fi_f:
  "is_number_list (map_of fluid ''fi'') \<and> is_number_list (map_of fluid ''f'')
     \<or> is_number (map_of fluid ''fi'') \<and> is_number (map_of fluid ''f'') \<Longrightarrow>
   try_except TypeError
     (run [from_key_each ''fi'' Dimensionless ''fi'', from_key_each ''f'' Pressure ''f''])
     (run [from_key_single ''fi'' Dimensionless ''fi'', from_key_single ''f'' Pressure ''f''])
     fluid self
   = Inr (setattr (setattr self ''fi'' (listed Dimensionless (map_of fluid ''fi'')))
            ''f'' (listed Pressure (map_of fluid ''f'')))"
  by (auto simp: try_except_def andthen_def from_key_each_list from_key_each_number
        from_key_single_number)

subsection \<open>Reading a restorable dict\<close>

lemma restorable_facts:
  assumes "restorable fluid"
  shows "list_all (\<lambda>k. is_number (map_of fluid k)) Thermo_number_keys"
    and "list_all (\<lambda>k. is_number (map_of fluid k)) ThermoAdvanced_number_keys"
    and "list_all (\<lambda>k. is_number_list (map_of fluid k)) Thermo_list_keys"
    and "list_all (\<lambda>k. map_of fluid k = None \<or> is_number (map_of fluid k)) optional_keys"
    and "is_number_list (map_of fluid ''fi'') \<and> is_number_list (map_of fluid ''f'')
        \<or> is_number (map_of fluid ''fi'') \<and> is_number (map_of fluid ''f'')"
    and "num_at fluid ''v'' \<noteq> 0" and "num_at fluid ''M'' \<noteq> 0"
  using assms by (simp_all add: restorable_def)

lemma restorable_nonempty: "restorable fluid \<Longrightarrow> fluid \<noteq> []"
  by (auto simp: restorable_def Thermo_number_keys_def is_number_def)

text \<open>
  The statements of \<open>Thermo.readStatefromJSON\<close> all succeed, and leave each attribute
  of the table with the unit class of the table and the magnitude of its key (0 for
  an absent \<open>kappas\<close>).
\<close>

lemma Thermo_read_restorable:
  assumes "restorable fluid"
  shows "\<exists>self'. run Thermo_read fluid self = Inr self'
           \<and> thermo_bool self' = thermo_bool self
           \<and> list_all (\<lambda>(a, u, k). map_of (attrs self') a
                          = Some (Quantity u (num_at fluid k))) Thermo_rebuilt
           \<and> list_all (\<lambda>(a, u, k). map_of (attrs self') a
                          = Some (listed u (map_of fluid k))) Thermo_rebuilt_lists
           \<and> map_of (attrs self') ''fi'' = Some (listed Dimensionless (map_of fluid ''fi''))
           \<and> map_of (attrs self') ''f'' = Some (listed Pressure (map_of fluid ''f''))"
proof -
  note f = restorable_facts [OF assms]
  have n: "is_number (map_of fluid ''M'')" "is_number (map_of fluid ''v'')"
    "is_number (map_of fluid ''h'')" "is_number (map_of fluid ''s'')"
    "is_number (map_of fluid ''u'')" "is_number (map_of fluid ''a'')"
    "is_number (map_of fluid ''g'')" "is_number (map_of fluid ''cv'')"
    "is_number (map_of fluid ''cp'')" "is_number (map_of fluid ''cp/cv'')"
    "is_number (map_of fluid ''w'')" "is_number (map_of fluid ''Z'')"
    "is_number (map_of fluid ''alfav'')" "is_number (map_of fluid ''kappa'')"
    "is_number (map_of fluid ''mu'')" "is_number (map_of fluid ''k'')"
    "is_number (map_of fluid ''nu'')" "is_number (map_of fluid ''Prandt'')"
    "is_number (map_of fluid ''alfa'')" "is_number (map_of fluid ''joule'')"
    "is_number (map_of fluid ''deltat'')" "is_number (map_of fluid ''gamma'')"
    "is_number (map_of fluid ''alfap'')" "is_number (map_of fluid ''betap'')"
    "is_number (map_of fluid ''volFlow'')" "is_number (map_of fluid ''massFlow'')"
    "is_number (map_of fluid ''molarFlow'')"
    using f(1) by (simp_all add: Thermo_number_keys_def)
  have l: "is_number_list (map_of fluid ''fraction'')"
    "is_number_list (map_of fluid ''massFraction'')"
    "is_number_list (map_of fluid ''massUnitFlow'')"
    "is_number_list (map_of fluid ''molarUnitFlow'')"
    using f(3) by (simp_all add: Thermo_list_keys_def)
  have k: "map_of fluid ''kappas'' = None \<or> is_number (map_of fluid ''kappas'')"
    using f(4) by (simp add: optional_keys_def)
  show ?thesis
    unfolding Thermo_read_def Thermo_rebuilt_def Thermo_rebuilt_lists_def
    by (simp add: andthen_Inr from_key_number n from_key_each_list l
        try_from_key_default [OF k] try_fi_f [OF f(5)]
        from_inverse_def from_ratio_def getattr_setattr py_truediv_def as_float_def
        unidad_def f(6,7) attrs_setattr thermo_bool_setattr)
qed

text \<open>
  So do those \<open>ThermoAdvanced.readStatefromJSON\<close> adds; they assign no other
  attribute.  \<open>virialB\<close> and \<open>virialC\<close> are both 0 as soon as one of the two keys is
  absent.
\<close>

lemma ThermoAdvanced_read_restorable:
  assumes "restorable fluid"
  shows "\<exists>self'. run ThermoAdvanced_read fluid self = Inr self'
           \<and> thermo_bool self' = thermo_bool self
           \<and> (\<forall>a. a \<notin> set (''virialB'' # ''virialC'' # map fst ThermoAdvanced_rebuilt) \<longrightarrow>
                 map_of (attrs self') a = map_of (attrs self) a)
           \<and> list_all (\<lambda>(a, u, k). map_of (attrs self') a
                          = Some (Quantity u (num_at fluid k))) ThermoAdvanced_rebuilt
           \<and> map_of (attrs self') ''virialB''
               = Some (Quantity SpecificVolume
                   (if map_of fluid ''virialB'' = None \<or> map_of fluid ''virialC'' = None
                    then 0 else num_at fluid ''virialB''))
           \<and> map_of (attrs self') ''virialC''
               = Some (Quantity SpecificVolume_square
                   (if map_of fluid ''virialB'' = None \<or> map_of fluid ''virialC'' = None
                    then 0 else num_at fluid ''virialC''))"
proof -
  note f = restorable_facts [OF assms]
  have n: "is_number (map_of fluid ''betas'')" "is_number (map_of fluid ''Gruneisen'')"
    "is_number (map_of fluid ''dpdT_rho'')" "is_number (map_of fluid ''dpdrho_T'')"
    "is_number (map_of fluid ''drhodT_P'')" "is_number (map_of fluid ''drhodP_T'')"
    "is_number (map_of fluid ''dhdT_rho'')" "is_number (map_of fluid ''dhdP_T'')"
    "is_number (map_of fluid ''dhdT_P'')" "is_number (map_of fluid ''dhdrho_T'')"
    "is_number (map_of fluid ''dhdP_rho'')" "is_number (map_of fluid ''kt'')"
    "is_number (map_of fluid ''ks'')" "is_number (map_of fluid ''Ks'')"
    "is_number (map_of fluid ''Kt'')" "is_number (map_of fluid ''IntP'')"
    "is_number (map_of fluid ''hInput'')" "is_number (map_of fluid ''epsilon'')"
    using f(2) by (simp_all add: ThermoAdvanced_number_keys_def)
  have k: "map_of fluid ''virialB'' = None \<or> is_number (map_of fluid ''virialB'')"
    "map_of fluid ''virialC'' = None \<or> is_number (map_of fluid ''virialC'')"
    "map_of fluid ''invT'' = None \<or> is_number (map_of fluid ''invT'')"
    using f(4) by (simp_all add: optional_keys_def)
  show ?thesis
    unfolding ThermoAdvanced_read_def ThermoAdvanced_rebuilt_def
    by (simp add: andthen_Inr from_key_number n try_from_key_default [OF k(3)]
        try_virial [OF k(1,2)] attrs_setattr thermo_bool_setattr)
qed

lemma list_all_kept:
  "list_all (\<lambda>(a, u, k). map_of d1 a = Some (f u k)) xs \<Longrightarrow>
   list_all (\<lambda>(a, u, k). a \<notin> S) xs \<Longrightarrow>
   \<forall>a. a \<notin> S \<longrightarrow> map_of d2 a = map_of d1 a \<Longrightarrow>
   list_all (\<lambda>(a, u, k). map_of d2 a = Some (f u k)) xs"
  by (induction xs) auto

lemma Thermo_rebuilt_kept:
  "list_all (\<lambda>(a, u, k).
      a \<notin> set (''virialB'' # ''virialC'' # map fst ThermoAdvanced_rebuilt)) Thermo_rebuilt"
  "list_all (\<lambda>(a, u, k).
      a \<notin> set (''virialB'' # ''virialC'' # map fst ThermoAdvanced_rebuilt)) Thermo_rebuilt_lists"
  "''fi'' \<notin> set (''virialB'' # ''virialC'' # map fst ThermoAdvanced_rebuilt)"
  "''f'' \<notin> set (''virialB'' # ''virialC'' # map fst ThermoAdvanced_rebuilt)"
  by (simp_all add: Thermo_rebuilt_def Thermo_rebuilt_lists_def ThermoAdvanced_rebuilt_def)

text \<open>Both together: \<open>ThermoAdvanced.readStatefromJSON\<close> on a restorable dict.\<close>

lemma ThermoAdvanced_readStatefromJSON_restorable:
  assumes "restorable fluid"
  shows "\<exists>self'. ThermoAdvanced_readStatefromJSON self fluid = Inr self'
           \<and> thermo_bool self'
           \<and> list_all (\<lambda>(a, u, k). map_of (attrs self') a
                          = Some (Quantity u (num_at fluid k)))
                (Thermo_rebuilt @ ThermoAdvanced_rebuilt)
           \<and> list_all (\<lambda>(a, u, k). map_of (attrs self') a
                          = Some (listed u (map_of fluid k))) Thermo_rebuilt_lists
           \<and> map_of (attrs self') ''fi'' = Some (listed Dimensionless (map_of fluid ''fi''))
           \<and> map_of (attrs self') ''f'' = Some (listed Pressure (map_of fluid ''f''))
           \<and> map_of (attrs self') ''virialB''
               = Some (Quantity SpecificVolume
                   (if map_of fluid ''virialB'' = None \<or> map_of fluid ''virialC'' = None
                    then 0 else num_at fluid ''virialB''))
           \<and> map_of (attrs self') ''virialC''
               = Some (Quantity SpecificVolume_square
                   (if map_of fluid ''virialB'' = None \<or> map_of fluid ''virialC'' = None
                    then 0 else num_at fluid ''virialC''))"
proof -
  obtain s1 where s1: "run Thermo_read fluid (self\<lparr>thermo_bool := True\<rparr>) = Inr s1"
    "thermo_bool s1 = thermo_bool (self\<lparr>thermo_bool := True\<rparr>)"
    "list_all (\<lambda>(a, u, k). map_of (attrs s1) a = Some (Quantity u (num_at fluid k)))
       Thermo_rebuilt"
    "list_all (\<lambda>(a, u, k). map_of (attrs s1) a = Some (listed u (map_of fluid k)))
       Thermo_rebuilt_lists"
    "map_of (attrs s1) ''fi'' = Some (listed Dimensionless (map_of fluid ''fi''))"
    "map_of (attrs s1) ''f'' = Some (listed Pressure (map_of fluid ''f''))"
    using Thermo_read_restorable [OF assms, of "self\<lparr>thermo_bool := True\<rparr>"] by blast
  obtain s2 where s2: "run ThermoAdvanced_read fluid s1 = Inr s2"
    "thermo_bool s2 = thermo_bool s1"
    "\<forall>a. a \<notin> set (''virialB'' # ''virialC'' # map fst ThermoAdvanced_rebuilt) \<longrightarrow>
         map_of (attrs s2) a = map_of (attrs s1) a"
    "list_all (\<lambda>(a, u, k). map_of (attrs s2) a = Some (Quantity u (num_at fluid k)))
       ThermoAdvanced_rebuilt"
    "map_of (attrs s2) ''virialB''
       = Some (Quantity SpecificVolume
           (if map_of fluid ''virialB'' = None \<or> map_of fluid ''virialC'' = None
            then 0 else num_at fluid ''virialB''))"
    "map_of (attrs s2) ''virialC''
       = Some (Quantity SpecificVolume_square
           (if map_of fluid ''virialB'' = None \<or> map_of fluid ''virialC'' = None
            then 0 else num_at fluid ''virialC''))"
    using ThermoAdvanced_read_restorable [OF assms, of s1] by blast
  have ne: "fluid \<noteq> []"
    using assms by (rule restorable_nonempty)
  have r: "ThermoAdvanced_readStatefromJSON self fluid = Inr s2"
    by (simp add: ThermoAdvanced_readStatefromJSON_def Thermo_readStatefromJSON_def
        read_more_def ne s1(1) s2(1) andthen_Inr)
  have t: "list_all (\<lambda>(a, u, k). map_of (attrs s2) a = Some (Quantity u (num_at fluid k)))
       Thermo_rebuilt"
    using s1(3) Thermo_rebuilt_kept(1) s2(3) by (rule list_all_kept)
  have tl: "list_all (\<lambda>(a, u, k). map_of (attrs s2) a = Some (listed u (map_of fluid k)))
       Thermo_rebuilt_lists"
    using s1(4) Thermo_rebuilt_kept(2) s2(3) by (rule list_all_kept)
  have fi: "map_of (attrs s2) ''fi'' = Some (listed Dimensionless (map_of fluid ''fi''))"
    "map_of (attrs s2) ''f'' = Some (listed Pressure (map_of fluid ''f''))"
    using s1(5,6) Thermo_rebuilt_kept(3,4) s2(3) by simp_all
  have b: "thermo_bool s2"
    by (simp add: s2(2) s1(2))
  show ?thesis
    using r b t tl fi s2(4-6) by simp
qed

subsection \<open>Writing a solved phase\<close>

lemma is_number_not_None: "is_number x \<Longrightarrow> x \<noteq> None"
  by (cases x) (simp_all add: is_number_def)

lemma is_number_list_not_None: "is_number_list x \<Longrightarrow> x \<noteq> None"
  by (cases x) (simp_all add: is_number_list_def)

lemma getattr_present: "map_of (attrs self) a = Some x \<Longrightarrow> getattr self a = Inr x"
  by (simp add: getattr_def)

text \<open>
  When every attribute read is set, the run of stores succeeds; a key holds the
  attribute of its last store, any other key is left as it was.
\<close>

lemma store_all_present:
  "list_all (\<lambda>(k, a). map_of (attrs self) a \<noteq> None) rows \<Longrightarrow>
   \<exists>fluid'. store_all self rows fluid = Inr fluid'
     \<and> (\<forall>k. map_of fluid' k
            = (case map_of (rev rows) k of
                 Some a \<Rightarrow> map_of (attrs self) a
               | None \<Rightarrow> map_of fluid k))"
proof (induction rows arbitrary: fluid)
  case Nil
  then show ?case by simp
next
  case (Cons row rows)
  obtain k a where row: "row = (k, a)"
    by (cases row)
  from Cons.prems row obtain x where x: "map_of (attrs self) a = Some x"
    by auto
  from Cons.prems have rest: "list_all (\<lambda>(k, a). map_of (attrs self) a \<noteq> None) rows"
    by simp
  from Cons.IH [OF rest, of "AList.update k x fluid"]
  obtain fluid' where f: "store_all self rows (AList.update k x fluid) = Inr fluid'"
    "\<forall>k'. map_of fluid' k'
       = (case map_of (rev rows) k' of
            Some a \<Rightarrow> map_of (attrs self) a
          | None \<Rightarrow> map_of (AList.update k x fluid) k')"
    by blast
  have "store_all self (row # rows) fluid = Inr fluid'"
    by (simp add: row getattr_present [OF x] andthen_Inr f(1))
  moreover have "\<forall>k'. map_of fluid' k'
       = (case map_of (rev (row # rows)) k' of
            Some a \<Rightarrow> map_of (attrs self) a
          | None \<Rightarrow> map_of fluid k')"
    using f(2) x by (auto simp: row update_conv' map_add_def split: option.splits)
  ultimately show ?case by blast
qed

lemma solved_present:
  assumes "solved self"
  shows "list_all (\<lambda>(k, a). map_of (attrs self) a \<noteq> None) Thermo_written"
    and "list_all (\<lambda>(k, a). map_of (attrs self) a \<noteq> None) ThermoAdvanced_written"
proof -
  have n: "list_all (\<lambda>(a, u, k). map_of (attrs self) a \<noteq> None) Thermo_rebuilt"
    "list_all (\<lambda>(a, u, k). map_of (attrs self) a \<noteq> None) ThermoAdvanced_rebuilt"
    "list_all (\<lambda>(a, u, k). map_of (attrs self) a \<noteq> None) Thermo_rebuilt_lists"
    "map_of (attrs self) ''virialB'' \<noteq> None" "map_of (attrs self) ''virialC'' \<noteq> None"
    "map_of (attrs self) ''fi'' \<noteq> None" "map_of (attrs self) ''f'' \<noteq> None"
    using assms
    by (auto simp: solved_def list_all_iff dest: is_number_not_None is_number_list_not_None)
  show "list_all (\<lambda>(k, a). map_of (attrs self) a \<noteq> None) Thermo_written"
    using n(1,3,6,7)
    by (simp add: Thermo_written_def Thermo_rebuilt_def Thermo_rebuilt_lists_def)
  show "list_all (\<lambda>(k, a). map_of (attrs self) a \<noteq> None) ThermoAdvanced_written"
    using n(2,4,5)
    by (simp add: ThermoAdvanced_written_def ThermoAdvanced_rebuilt_def)
qed

text \<open>
  \<open>ThermoAdvanced.writeStatetoJSON\<close> on a solved phase: the dict stored under the
  phase key holds, for each pair (key, attribute) written, the attribute under the key.
\<close>

lemma ThermoAdvanced_write_solved:
  assumes "solved self"
  shows "\<exists>fluid. ThermoAdvanced_writeStatetoJSON self state fase
                  = Inr (AList.update fase fluid state)
           \<and> (\<forall>k. map_of fluid k
                  = (case map_of (rev (Thermo_written @ ThermoAdvanced_written)) k of
                       Some a \<Rightarrow> map_of (attrs self) a
                     | None \<Rightarrow> None))"
proof -
  have b: "thermo_bool self"
    using assms by (simp add: solved_def)
  obtain f1 where f1: "store_all self Thermo_written [] = Inr f1"
    "\<forall>k. map_of f1 k
       = (case map_of (rev Thermo_written) k of
            Some a \<Rightarrow> map_of (attrs self) a
          | None \<Rightarrow> map_of [] k)"
    using store_all_present [OF solved_present(1) [OF assms], of "[]"] by blast
  obtain f2 where f2: "store_all self ThermoAdvanced_written f1 = Inr f2"
    "\<forall>k. map_of f2 k
       = (case map_of (rev ThermoAdvanced_written) k of
            Some a \<Rightarrow> map_of (attrs self) a
          | None \<Rightarrow> map_of f1 k)"
    using store_all_present [OF solved_present(2) [OF assms], of f1] by blast
  have "ThermoAdvanced_writeStatetoJSON self state fase = Inr (AList.update fase f2 state)"
    by (simp add: ThermoAdvanced_writeStatetoJSON_def Thermo_writeStatetoJSON_def
        write_more_def b f1(1) f2(1) andthen_Inr getitem_def update_conv')
  moreover have "\<forall>k. map_of f2 k
                  = (case map_of (rev (Thermo_written @ ThermoAdvanced_written)) k of
                       Some a \<Rightarrow> map_of (attrs self) a
                     | None \<Rightarrow> None)"
    using f1(2) f2(2) by (auto simp: map_add_def split: option.splits)
  ultimately show ?thesis by blast
qed

subsection \<open>The catalog of ThermoAdvanced, resolved\<close>

lemma dictUnit_fold:
  "map_of (fold (\<lambda>(name, key, unit) d. AList.update key unit d) props d) k
   = (case map_of (rev (map (\<lambda>(name, key, unit). (key, unit)) props)) k of
        Some u \<Rightarrow> Some u
      | None \<Rightarrow> map_of d k)"
proof (induction props arbitrary: d)
  case Nil
  then show ?case by simp
next
  case (Cons p props)
  obtain name key unit where p: "p = (name, key, unit)"
    by (cases p)
  show ?case
    by (simp add: p Cons.IH update_conv' map_add_def split: option.splits)
qed

lemma keys_units_zip:
  "map (\<lambda>(name, key, unit). (key, unit)) props
   = zip (map (\<lambda>prop. fst (snd prop)) props) (map (\<lambda>prop. snd (snd prop)) props)"
  by (induction props) auto

lemma dictUnit_lookup:
  "map_of (dictUnit cls) k = map_of (rev (zip (propertiesKey cls) (propertiesUnit cls))) k"
  unfolding dictUnit_def dictUnit_fold propertiesKey_def propertiesUnit_def keys_units_zip
  by (simp split: option.splits)

text \<open>The keys of \<open>ThermoAdvanced.properties()\<close> with their unit classes, in order.\<close>

lemma ThermoAdvanced_keys_units:
  "zip (propertiesKey ThermoAdvanced) (propertiesUnit ThermoAdvanced) =
    [
     (''T'', Temperature), (''Tr'', Dimensionless), (''P'', Pressure),
     (''Pr'', Dimensionless), (''x'', Dimensionless), (''rho'', Density),
     (''rhoM'', MolarDensity), (''v'', SpecificVolume), (''h'', Enthalpy),
     (''hM'', MolarEnthalpy), (''s'', SpecificHeat), (''sM'', MolarSpecificHeat),
     (''u'', Enthalpy), (''uM'', MolarEnthalpy), (''a'', Enthalpy),
     (''aM'', MolarEnthalpy), (''g'', Enthalpy), (''gM'', MolarEnthalpy),
     (''cv'', SpecificHeat), (''cvM'', MolarSpecificHeat), (''cp'', SpecificHeat),
     (''cpM'', MolarSpecificHeat), (''cp_cv'', Dimensionless), (''w'', Speed),
     (''Z'', Dimensionless), (''fi'', Dimensionless), (''f'', Pressure),
     (''gamma'', Dimensionless), (''alfav'', InvTemperature), (''kappa'', InvPressure),
     (''kappas'', InvPressure), (''alfap'', InvTemperature), (''betap'', Density),
     (''joule'', TemperaturePressure), (''epsilon'', Dimensionless),
     (''hInput'', Enthalpy), (''invT'', InvTemperature), (''IntP'', Pressure),
     (''Kt'', Pressure), (''Ks'', Pressure), (''ks'', Dimensionless),
     (''kt'', Dimensionless), (''dhdP_rho'', EnthalpyPressure),
     (''dhdrho_T'', EnthalpyDensity), (''dhdT_P'', SpecificHeat),
     (''dhdP_T'', EnthalpyPressure), (''dhdT_rho'', SpecificHeat),
     (''drhodP_T'', DensityPressure), (''drhodT_P'', DensityTemperature),
     (''dpdrho_T'', PressureDensity), (''dpdT_rho'', PressureTemperature),
     (''virialC'', SpecificVolume_square), (''virialB'', SpecificVolume),
     (''Gruneisen'', Dimensionless), (''betas'', TemperaturePressure),
     (''deltat'', EnthalpyPressure), (''Hvap'', Enthalpy), (''Svap'', SpecificHeat),
     (''mu'', Viscosity), (''k'', ThermalConductivity), (''nu'', Diffusivity),
     (''alfa'', Diffusivity), (''sigma'', Tension), (''Prandt'', Dimensionless),
     (''v0'', SpecificVolume), (''rho0'', Density), (''h0'', Enthalpy),
     (''u0'', Enthalpy), (''s0'', SpecificHeat), (''a0'', Enthalpy),
     (''g0'', Enthalpy), (''cp0'', SpecificHeat), (''cv0'', SpecificHeat),
     (''cp0_cv'', Dimensionless), (''gamma0'', Dimensionless)]"
  by code_simp


subsection \<open>Writing, then reading\<close>

text \<open>
  Writer and reader agree on the key of each attribute: the key from which
  \<open>readStatefromJSON\<close> builds an attribute is the key under which
  \<open>writeStatetoJSON\<close> stores it.
\<close>

lemma written_key_of_rebuilt:
  "list_all (\<lambda>(a, u, k). map_of (rev (Thermo_written @ ThermoAdvanced_written)) k = Some a)
     (Thermo_rebuilt @ ThermoAdvanced_rebuilt @ Thermo_rebuilt_lists
        @ [(''virialB'', SpecificVolume, ''virialB''),
           (''virialC'', SpecificVolume_square, ''virialC''),
           (''fi'', Dimensionless, ''fi''), (''f'', Pressure, ''f'')])"
  by code_simp

lemma list_all_implies:
  "list_all P xs \<Longrightarrow> (\<And>x. P x \<Longrightarrow> Q x) \<Longrightarrow> list_all Q xs"
  by (induction xs) auto

lemma written_entries:
  assumes "\<forall>k. map_of fluid k
                  = (case map_of (rev (Thermo_written @ ThermoAdvanced_written)) k of
                       Some a \<Rightarrow> map_of (attrs self) a
                     | None \<Rightarrow> None)"
  shows "list_all (\<lambda>(a, u, k). map_of fluid k = map_of (attrs self) a)
     (Thermo_rebuilt @ ThermoAdvanced_rebuilt @ Thermo_rebuilt_lists
        @ [(''virialB'', SpecificVolume, ''virialB''),
           (''virialC'', SpecificVolume_square, ''virialC''),
           (''fi'', Dimensionless, ''fi''), (''f'', Pressure, ''f'')])"
proof (rule list_all_implies [OF written_key_of_rebuilt])
  fix x :: "string \<times> unidades \<times> string"
  assume "case x of (a, u, k) \<Rightarrow>
            map_of (rev (Thermo_written @ ThermoAdvanced_written)) k = Some a"
  then show "case x of (a, u, k) \<Rightarrow> map_of fluid k = map_of (attrs self) a"
    by (cases x) (simp add: assms)
qed

lemma written_restorable:
  assumes "solved self"
    and "list_all (\<lambda>(a, u, k). map_of fluid k = map_of (attrs self) a)
     (Thermo_rebuilt @ ThermoAdvanced_rebuilt @ Thermo_rebuilt_lists
        @ [(''virialB'', SpecificVolume, ''virialB''),
           (''virialC'', SpecificVolume_square, ''virialC''),
           (''fi'', Dimensionless, ''fi''), (''f'', Pressure, ''f'')])"
  shows "restorable fluid"
  using assms
  unfolding solved_def restorable_def Thermo_number_keys_def ThermoAdvanced_number_keys_def
    Thermo_list_keys_def optional_keys_def Thermo_rebuilt_def ThermoAdvanced_rebuilt_def
    Thermo_rebuilt_lists_def
  by (simp add: num_at_def)

lemma list_all_implies2:
  "list_all P xs \<Longrightarrow> list_all R xs \<Longrightarrow> (\<And>x. P x \<Longrightarrow> R x \<Longrightarrow> Q x) \<Longrightarrow> list_all Q xs"
  by (induction xs) auto

lemma list_all_member: "list_all P xs \<Longrightarrow> x \<in> set xs \<Longrightarrow> P x"
  by (simp add: list_all_iff)

text \<open>
  The round trip of a solved phase succeeds and reproduces the magnitude of every
  single-valued attribute written and the elements of every list; the unit class of
  each is the one the reader's statement names.
\<close>

lemma roundtrip_solved:
  assumes "solved self"
  shows "\<exists>self'. roundtrip ThermoAdvanced self target = Inr self'
           \<and> thermo_bool self'
           \<and> list_all (\<lambda>(a, u, k). map_of (attrs self') a
                          = Some (Quantity u (num_at (attrs self) a)))
                (Thermo_rebuilt @ ThermoAdvanced_rebuilt
                   @ [(''virialB'', SpecificVolume, ''virialB''),
                      (''virialC'', SpecificVolume_square, ''virialC'')])
           \<and> list_all (\<lambda>(a, u, k). map_of (attrs self') a
                          = Some (listed u (map_of (attrs self) a)))
                (Thermo_rebuilt_lists
                   @ [(''fi'', Dimensionless, ''fi''), (''f'', Pressure, ''f'')])"
proof -
  obtain fluid where w:
    "ThermoAdvanced_writeStatetoJSON self [] ''fase'' = Inr (AList.update ''fase'' fluid [])"
    "\<forall>k. map_of fluid k
        = (case map_of (rev (Thermo_written @ ThermoAdvanced_written)) k of
             Some a \<Rightarrow> map_of (attrs self) a
           | None \<Rightarrow> None)"
    using ThermoAdvanced_write_solved [OF assms, of "[]" "''fase''"] by blast
  note e = written_entries [OF w(2)]
  have e1: "list_all (\<lambda>(a, u, k). map_of fluid k = map_of (attrs self) a)
              (Thermo_rebuilt @ ThermoAdvanced_rebuilt)"
    and e2: "list_all (\<lambda>(a, u, k). map_of fluid k = map_of (attrs self) a)
              Thermo_rebuilt_lists"
    and e3: "map_of fluid ''virialB'' = map_of (attrs self) ''virialB''"
      "map_of fluid ''virialC'' = map_of (attrs self) ''virialC''"
      "map_of fluid ''fi'' = map_of (attrs self) ''fi''"
      "map_of fluid ''f'' = map_of (attrs self) ''f''"
    using e by simp_all
  have r: "restorable fluid"
    using assms e by (rule written_restorable)
  obtain s where s: "ThermoAdvanced_readStatefromJSON target fluid = Inr s"
    "thermo_bool s"
    "list_all (\<lambda>(a, u, k). map_of (attrs s) a = Some (Quantity u (num_at fluid k)))
       (Thermo_rebuilt @ ThermoAdvanced_rebuilt)"
    "list_all (\<lambda>(a, u, k). map_of (attrs s) a = Some (listed u (map_of fluid k)))
       Thermo_rebuilt_lists"
    "map_of (attrs s) ''fi'' = Some (listed Dimensionless (map_of fluid ''fi''))"
    "map_of (attrs s) ''f'' = Some (listed Pressure (map_of fluid ''f''))"
    "map_of (attrs s) ''virialB''
       = Some (Quantity SpecificVolume
           (if map_of fluid ''virialB'' = None \<or> map_of fluid ''virialC'' = None
            then 0 else num_at fluid ''virialB''))"
    "map_of (attrs s) ''virialC''
       = Some (Quantity SpecificVolume_square
           (if map_of fluid ''virialB'' = None \<or> map_of fluid ''virialC'' = None
            then 0 else num_at fluid ''virialC''))"
    using ThermoAdvanced_readStatefromJSON_restorable [OF r, of target] by blast
  have present: "map_of (attrs self) ''virialB'' \<noteq> None"
    "map_of (attrs self) ''virialC'' \<noteq> None"
    using assms by (auto simp: solved_def dest: is_number_not_None)
  have run: "roundtrip ThermoAdvanced self target = Inr s"
    by (simp add: roundtrip_def w(1) andthen_Inr getitem_def s(1))
  have numbers: "list_all (\<lambda>(a, u, k). map_of (attrs s) a
                    = Some (Quantity u (num_at (attrs self) a)))
                   (Thermo_rebuilt @ ThermoAdvanced_rebuilt)"
    using s(3) e1
  proof (rule list_all_implies2)
    fix x :: "string \<times> unidades \<times> string"
    assume "case x of (a, u, k) \<Rightarrow> map_of (attrs s) a = Some (Quantity u (num_at fluid k))"
      and "case x of (a, u, k) \<Rightarrow> map_of fluid k = map_of (attrs self) a"
    then show "case x of (a, u, k) \<Rightarrow>
        map_of (attrs s) a = Some (Quantity u (num_at (attrs self) a))"
      by (cases x) (simp add: num_at_def)
  qed
  have lists: "list_all (\<lambda>(a, u, k). map_of (attrs s) a
                    = Some (listed u (map_of (attrs self) a))) Thermo_rebuilt_lists"
    using s(4) e2
  proof (rule list_all_implies2)
    fix x :: "string \<times> unidades \<times> string"
    assume "case x of (a, u, k) \<Rightarrow> map_of (attrs s) a = Some (listed u (map_of fluid k))"
      and "case x of (a, u, k) \<Rightarrow> map_of fluid k = map_of (attrs self) a"
    then show "case x of (a, u, k) \<Rightarrow>
        map_of (attrs s) a = Some (listed u (map_of (attrs self) a))"
      by (cases x) simp
  qed
  have virial: "map_of (attrs s) ''virialB''
        = Some (Quantity SpecificVolume (num_at (attrs self) ''virialB''))"
    "map_of (attrs s) ''virialC''
        = Some (Quantity SpecificVolume_square (num_at (attrs self) ''virialC''))"
    using s(7,8) present by (simp_all add: e3 num_at_def)
  have fi: "map_of (attrs s) ''fi'' = Some (listed Dimensionless (map_of (attrs self) ''fi''))"
    "map_of (attrs s) ''f'' = Some (listed Pressure (map_of (attrs self) ''f''))"
    using s(5,6) by (simp_all add: e3)
  show ?thesis
    using run s(2) numbers lists virial fi by simp
qed

text \<open>
  The unit classes the reader names, against the catalog of \<open>ThermoAdvanced\<close>: they
  are the declared ones except for \<open>alfap\<close>, \<open>betap\<close> and \<open>ks\<close>; \<open>M\<close> and the three
  flows are no keys of the catalog.
\<close>

lemma rebuilt_units_against_catalog:
  "list_all (\<lambda>(a, u, k).
       a \<in> set [''alfap'', ''betap'', ''ks'']
     \<or> map_of (dictUnit ThermoAdvanced) a = Some u
     \<or> a \<in> set [''M'', ''Q'', ''caudalmasico'', ''caudalmolar'']
        \<and> map_of (dictUnit ThermoAdvanced) a = None)
     (Thermo_rebuilt @ ThermoAdvanced_rebuilt
        @ [(''virialB'', SpecificVolume, ''virialB''),
           (''virialC'', SpecificVolume_square, ''virialC''),
           (''fi'', Dimensionless, ''fi''), (''f'', Pressure, ''f'')])"
  unfolding Thermo_rebuilt_def ThermoAdvanced_rebuilt_def
  by (simp add: dictUnit_lookup ThermoAdvanced_keys_units)

lemma catalog_units_alfap_betap_ks:
  "map_of (dictUnit ThermoAdvanced) ''alfap'' = Some InvTemperature"
  "map_of (dictUnit ThermoAdvanced) ''betap'' = Some Density"
  "map_of (dictUnit ThermoAdvanced) ''ks'' = Some Dimensionless"
  by (simp_all add: dictUnit_lookup ThermoAdvanced_keys_units)

subsection \<open>The claims\<close>





lemma solved_example_solved: "solved solved_example"
  unfolding solved_def Thermo_rebuilt_def ThermoAdvanced_rebuilt_def Thermo_rebuilt_lists_def
  by (simp add: solved_example_def is_number_def is_number_list_def num_at_def magnitude_def)

text \<open>
  C4 at a solved state.  The example instance holds \<open>alfap\<close>, \<open>betap\<close> and \<open>ks\<close> with
  the unit classes the catalog declares (\<open>InvTemperature\<close>, \<open>Density\<close>,
  \<open>Dimensionless\<close>).  Writing it and reading the dict back succeeds and reproduces the
  three magnitudes, but builds \<open>alfap\<close> and \<open>betap\<close> as \<open>Dimensionless\<close> and \<open>ks\<close> as
  \<open>InvPressure\<close>.
\<close>

theorem roundtrip_unit_kinds:
  "\<exists>self'. roundtrip ThermoAdvanced solved_example fresh = Inr self'
     \<and> map_of (attrs solved_example) ''alfap'' = Some (Quantity InvTemperature (4 / 1000))
     \<and> map_of (dictUnit ThermoAdvanced) ''alfap'' = Some InvTemperature
     \<and> map_of (attrs self') ''alfap'' = Some (Quantity Dimensionless (4 / 1000))
     \<and> map_of (attrs solved_example) ''betap'' = Some (Quantity Density 250)
     \<and> map_of (dictUnit ThermoAdvanced) ''betap'' = Some Density
     \<and> map_of (attrs self') ''betap'' = Some (Quantity Dimensionless 250)
     \<and> map_of (attrs solved_example) ''ks'' = Some (Quantity Dimensionless (3 / 2))
     \<and> map_of (dictUnit ThermoAdvanced) ''ks'' = Some Dimensionless
     \<and> map_of (attrs self') ''ks'' = Some (Quantity InvPressure (3 / 2))"
proof -
  obtain s where s: "roundtrip ThermoAdvanced solved_example fresh = Inr s"
    "list_all (\<lambda>(a, u, k). map_of (attrs s) a
         = Some (Quantity u (num_at (attrs solved_example) a)))
       (Thermo_rebuilt @ ThermoAdvanced_rebuilt
          @ [(''virialB'', SpecificVolume, ''virialB''),
             (''virialC'', SpecificVolume_square, ''virialC'')])"
    using roundtrip_solved [OF solved_example_solved, of fresh] by blast
  have before: "map_of (attrs solved_example) ''alfap'' = Some (Quantity InvTemperature (4 / 1000))"
    "map_of (attrs solved_example) ''betap'' = Some (Quantity Density 250)"
    "map_of (attrs solved_example) ''ks'' = Some (Quantity Dimensionless (3 / 2))"
    by (simp_all add: solved_example_def)
  have m: "(''alfap'', Dimensionless, ''alfap'')
             \<in> set (Thermo_rebuilt @ ThermoAdvanced_rebuilt
                  @ [(''virialB'', SpecificVolume, ''virialB''),
                     (''virialC'', SpecificVolume_square, ''virialC'')])"
    "(''betap'', Dimensionless, ''betap'')
             \<in> set (Thermo_rebuilt @ ThermoAdvanced_rebuilt
                  @ [(''virialB'', SpecificVolume, ''virialB''),
                     (''virialC'', SpecificVolume_square, ''virialC'')])"
    "(''ks'', InvPressure, ''ks'')
             \<in> set (Thermo_rebuilt @ ThermoAdvanced_rebuilt
                  @ [(''virialB'', SpecificVolume, ''virialB''),
                     (''virialC'', SpecificVolume_square, ''virialC'')])"
    by (simp_all add: Thermo_rebuilt_def ThermoAdvanced_rebuilt_def)
  have after: "map_of (attrs s) ''alfap'' = Some (Quantity Dimensionless (4 / 1000))"
    "map_of (attrs s) ''betap'' = Some (Quantity Dimensionless 250)"
    "map_of (attrs s) ''ks'' = Some (Quantity InvPressure (3 / 2))"
    using list_all_member [OF s(2) m(1)] list_all_member [OF s(2) m(2)]
      list_all_member [OF s(2) m(3)]
    by (simp_all add: num_at_def before magnitude_def)
  show ?thesis
    using s(1) before catalog_units_alfap_betap_ks after by simp
qed

end
